theory Spec2Isabelle
  imports Main "HOL-Library.Word"
begin

section \<open>fits2js: FITS cards, headers, data matrices and files\<close>

text \<open>
  A shallow embedding of the library's four classes: \<^verbatim>\<open>Card\<close> (card.ts),
  \<^verbatim>\<open>FITSHeader\<close> (header.ts), \<^verbatim>\<open>FITSData\<close> (data.ts) and \<^verbatim>\<open>FITS\<close> (fits.ts).
  Every \<^verbatim>\<open>throw\<close> of the source is a constructor of \<open>error\<close>; a function that may throw
  returns \<open>error + 'a\<close>. A method that changes its receiver returns the receiver it has
  become. The regular expressions that the modules create once and test with the \<^verbatim>\<open>g\<close>
  flag keep a \<^verbatim>\<open>lastIndex\<close> between calls: the functions that test them take the state
  of the patterns and return it. Built-ins of the engine that the model does not compute
  (\<^verbatim>\<open>Number.parseFloat\<close>, the IEEE-754 encoders) are parameters.
\<close>

datatype error =
    ArityMismatch            \<comment> \<open>RangeError: Expected NAXIS coordinates\<close>
  | NoDataAvailable          \<comment> \<open>RangeError: NAXIS is 0, no data available\<close>
  | OutOfBounds              \<comment> \<open>RangeError: Coordinates out of bounds\<close>
  | UnsupportedBitDepth      \<comment> \<open>TypeError: 64-bit integers are not supported\<close>
  | DataViewRangeError       \<comment> \<open>RangeError raised by a DataView accessor: offset outside the view\<close>
  | ShapeMismatch            \<comment> \<open>RangeError: Expected n data points\<close>
  | HierarchTooLong          \<comment> \<open>RangeError: HIERARCH keyword is too long\<close>
  | InvalidKeyword           \<comment> \<open>TypeError: Invalid keyword\<close>
  | EndHasValueOrComment     \<comment> \<open>TypeError: END card must have no value or comment\<close>
  | ContinueNotString        \<comment> \<open>TypeError: CONTINUE card must have a string value\<close>
  | NonAsciiValue            \<comment> \<open>TypeError: Invalid value: must be an ASCII string\<close>
  | NonAsciiComment          \<comment> \<open>TypeError: Invalid comment: must be an ASCII string\<close>
  | RecordTooLong            \<comment> \<open>RangeError: Cannot create a card that exceeds 80 characters\<close>
  | PropertyOfUndefined      \<comment> \<open>TypeError of the engine: a property of \<^verbatim>\<open>undefined\<close> is read\<close>
  | WrongImageLength         \<comment> \<open>Error: Card image must be exactly 80 characters long\<close>
  | MalformedCard            \<comment> \<open>Error: Failed to parse card image\<close>
  | NotRetrievable           \<comment> \<open>TypeError: Cannot retrieve values for keyword\<close>
  | TypeMismatch             \<comment> \<open>TypeError: Expected keyword to be an integer, real, logical or string\<close>
  | KeywordNotMutable        \<comment> \<open>TypeError: Cannot set value for keyword\<close>

subsection \<open>JavaScript numbers used as coordinates and offsets\<close>

text \<open>
  Coordinates, axis lengths and byte offsets are JavaScript numbers. The model keeps the
  integers and \<^verbatim>\<open>NaN\<close>, which the code itself produces from integers (arithmetic on
  \<^verbatim>\<open>undefined\<close>); fractions, infinities and the rounding of doubles beyond 2^53 are left
  out.
\<close>

datatype jsnum = Num int | NaN

fun js_add :: "jsnum \<Rightarrow> jsnum \<Rightarrow> jsnum" where
  "js_add (Num a) (Num b) = Num (a + b)"
| "js_add _ _ = NaN"

fun js_mul :: "jsnum \<Rightarrow> jsnum \<Rightarrow> jsnum" where
  "js_mul (Num a) (Num b) = Num (a * b)"
| "js_mul _ _ = NaN"

text \<open>\<^verbatim>\<open>a > b\<close>, \<^verbatim>\<open>a < b\<close> and \<^verbatim>\<open>a >= b\<close>: false as soon as one side is \<^verbatim>\<open>NaN\<close>.\<close>

fun js_gt :: "jsnum \<Rightarrow> jsnum \<Rightarrow> bool" where
  "js_gt (Num a) (Num b) = (a > b)"
| "js_gt _ _ = False"

fun js_lt :: "jsnum \<Rightarrow> jsnum \<Rightarrow> bool" where
  "js_lt (Num a) (Num b) = (a < b)"
| "js_lt _ _ = False"

fun js_ge :: "jsnum \<Rightarrow> jsnum \<Rightarrow> bool" where
  "js_ge (Num a) (Num b) = (a \<ge> b)"
| "js_ge _ _ = False"

text \<open>
  \<^verbatim>\<open>xs[i]\<close> read as a number: an index past the end gives \<^verbatim>\<open>undefined\<close>, which
  arithmetic and comparisons turn into \<^verbatim>\<open>NaN\<close>.
\<close>

definition js_nth :: "jsnum list \<Rightarrow> nat \<Rightarrow> jsnum" where
  "js_nth xs i = (if i < length xs then xs ! i else NaN)"

definition js_axis :: "int list \<Rightarrow> nat \<Rightarrow> jsnum" where
  "js_axis xs i = (if i < length xs then Num (xs ! i) else NaN)"

text \<open>
  \<^verbatim>\<open>xs[i] = v\<close>: JavaScript extends the array when \<open>i\<close> is past the end (the holes in
  between read as \<^verbatim>\<open>undefined\<close>, here \<^verbatim>\<open>NaN\<close>).
\<close>

definition js_assign :: "jsnum list \<Rightarrow> nat \<Rightarrow> jsnum \<Rightarrow> jsnum list" where
  "js_assign xs i v =
     (if i < length xs then xs[i := v] else xs @ replicate (i - length xs) NaN @ [v])"

text \<open>\<^verbatim>\<open>xs[i]++\<close>\<close>

definition js_incr :: "jsnum list \<Rightarrow> nat \<Rightarrow> jsnum list" where
  "js_incr xs i = js_assign xs i (js_add (js_nth xs i) (Num 1))"

subsection \<open>DataView over a byte buffer\<close>

type_synonym byte = "8 word"

text \<open>
  \<^verbatim>\<open>ToIndex\<close> of the accessors: \<^verbatim>\<open>NaN\<close> becomes 0, a negative index is a RangeError.
\<close>

definition ToIndex :: "jsnum \<Rightarrow> error + nat" where
  "ToIndex x = (case x of NaN \<Rightarrow> Inr 0
                | Num k \<Rightarrow> if k < 0 then Inl DataViewRangeError else Inr (nat k))"

text \<open>The \<open>n\<close> bytes at \<open>off\<close>; a RangeError when they do not lie within the view.\<close>

definition view_get :: "byte list \<Rightarrow> jsnum \<Rightarrow> nat \<Rightarrow> error + byte list" where
  "view_get view off n =
     (case ToIndex off of
        Inl e \<Rightarrow> Inl e
      | Inr i \<Rightarrow> if i + n > length view then Inl DataViewRangeError
                 else Inr (take n (drop i view)))"

definition view_set :: "byte list \<Rightarrow> nat \<Rightarrow> byte list \<Rightarrow> error + byte list" where
  "view_set view off bs =
     (if off + length bs > length view then Inl DataViewRangeError
      else Inr (take off view @ bs @ drop (off + length bs) view))"

text \<open>Big-endian reading of bytes as an unsigned integer, and the bytes of an integer.\<close>

definition be_uint :: "byte list \<Rightarrow> int" where
  "be_uint bs = foldl (\<lambda>acc b. acc * 256 + uint b) 0 bs"

fun be_bytes :: "nat \<Rightarrow> int \<Rightarrow> byte list" where
  "be_bytes 0 k = []"
| "be_bytes (Suc n) k = be_bytes n (k div 256) @ [word_of_int k]"

text \<open>
  A decoded data point. An integer word is its two's complement value. The IEEE-754
  decoding of \<^verbatim>\<open>getFloat32\<close> and \<^verbatim>\<open>getFloat64\<close> is a built-in of the engine: a float
  point is kept as the bit pattern it is decoded from.
\<close>

datatype point = IntPoint int | Float32Point "32 word" | Float64Point "64 word"

subsection \<open>FITSData (data.ts)\<close>

datatype FITSBITPIX = BITPIX_8 | BITPIX_16 | BITPIX_32 | BITPIX_64 | BITPIX_m32 | BITPIX_m64

text \<open>\<^verbatim>\<open>Math.abs(BITPIX) / 8\<close>\<close>

fun wordBytes :: "FITSBITPIX \<Rightarrow> nat" where
  "wordBytes BITPIX_8 = 1"
| "wordBytes BITPIX_16 = 2"
| "wordBytes BITPIX_32 = 4"
| "wordBytes BITPIX_64 = 8"
| "wordBytes BITPIX_m32 = 4"
| "wordBytes BITPIX_m64 = 8"

record FITSData =
  BITPIX :: FITSBITPIX
  NAXIS :: nat
  NAXISn :: "int list"
  dataBuffer :: "byte list"

text \<open>\<^verbatim>\<open>#readPoint(offset)\<close>: the switch on BITPIX over the DataView accessors.\<close>

definition readPoint :: "FITSData \<Rightarrow> jsnum \<Rightarrow> error + point" where
  "readPoint d offset =
     (case BITPIX d of
        BITPIX_8 \<Rightarrow> map_sum id (\<lambda>bs. IntPoint (signed_take_bit 7 (be_uint bs)))
                      (view_get (dataBuffer d) offset 1)
      | BITPIX_16 \<Rightarrow> map_sum id (\<lambda>bs. IntPoint (signed_take_bit 15 (be_uint bs)))
                      (view_get (dataBuffer d) offset 2)
      | BITPIX_32 \<Rightarrow> map_sum id (\<lambda>bs. IntPoint (signed_take_bit 31 (be_uint bs)))
                      (view_get (dataBuffer d) offset 4)
      | BITPIX_64 \<Rightarrow> Inl UnsupportedBitDepth
      | BITPIX_m32 \<Rightarrow> map_sum id (\<lambda>bs. Float32Point (word_of_int (be_uint bs)))
                      (view_get (dataBuffer d) offset 4)
      | BITPIX_m64 \<Rightarrow> map_sum id (\<lambda>bs. Float64Point (word_of_int (be_uint bs)))
                      (view_get (dataBuffer d) offset 8))"

text \<open>
  The loop of \<^verbatim>\<open>getPoint\<close>, one step per axis, on the pair \<open>(mul, offset)\<close>:
  \<^verbatim>\<open>offset += coords[i] * mul; mul *= this.NAXISn[i]\<close>.
\<close>

definition getPoint_step :: "FITSData \<Rightarrow> jsnum list \<Rightarrow> nat \<Rightarrow> jsnum \<times> jsnum \<Rightarrow> jsnum \<times> jsnum" where
  "getPoint_step d coords i =
     (\<lambda>(mul, offset). (js_mul mul (js_axis (NAXISn d) i),
                        js_add offset (js_mul (js_nth coords i) mul)))"

text \<open>The byte offset \<^verbatim>\<open>getPoint\<close> computes, after \<^verbatim>\<open>offset *= Math.abs(this.BITPIX) / 8\<close>.\<close>

definition getPoint_offset :: "FITSData \<Rightarrow> jsnum list \<Rightarrow> jsnum" where
  "getPoint_offset d coords =
     js_mul (snd (fold (getPoint_step d coords) [0..<NAXIS d] (Num 1, Num 0)))
            (Num (int (wordBytes (BITPIX d))))"

definition getPoint :: "FITSData \<Rightarrow> jsnum list \<Rightarrow> error + point" where
  "getPoint d coords =
     (if length coords \<noteq> NAXIS d then Inl ArityMismatch
      else if NAXIS d = 0 then Inl NoDataAvailable
      else let offset = getPoint_offset d coords in
        if js_lt offset (Num 0) \<or> js_ge offset (Num (int (length (dataBuffer d))))
        then Inl OutOfBounds
        else readPoint d offset)"

text \<open>
  The carry of \<^verbatim>\<open>getData\<close>:
  \<^verbatim>\<open>while (coords[i] > this.NAXISn[i]) { coords[i] = 1; coords[++i]++ }\<close>.
\<close>

function getData_carry :: "int list \<Rightarrow> jsnum list \<Rightarrow> nat \<Rightarrow> jsnum list" where
  "getData_carry naxisn coords i =
     (if js_gt (js_nth coords i) (js_axis naxisn i)
      then getData_carry naxisn (js_incr (js_assign coords i (Num 1)) (Suc i)) (Suc i)
      else coords)"
  by pat_completeness auto
termination
proof (relation "measure (\<lambda>(naxisn, coords, i). length naxisn - i)")
  show "wf (measure (\<lambda>(naxisn, coords, i). length naxisn - i))" by simp
next
  fix naxisn :: "int list" and coords :: "jsnum list" and i :: nat
  assume gt: "js_gt (js_nth coords i) (js_axis naxisn i)"
  have "i < length naxisn"
  proof (rule ccontr)
    assume "\<not> i < length naxisn"
    then have "js_axis naxisn i = NaN" by (simp add: js_axis_def)
    with gt show False by (cases "js_nth coords i") simp_all
  qed
  then show "((naxisn, js_incr (js_assign coords i (Num 1)) (Suc i), Suc i), (naxisn, coords, i))
      \<in> measure (\<lambda>(naxisn, coords, i). length naxisn - i)"
    by simp
qed

text \<open>
  The generator \<^verbatim>\<open>getData\<close>: the pairs it yields, in order, and the error that ends it
  when \<^verbatim>\<open>#readPoint\<close> throws. The body is the \<^verbatim>\<open>do ... while\<close> loop, \<open>offset\<close> in bytes.
\<close>

function getData_loop :: "FITSData \<Rightarrow> jsnum list \<Rightarrow> nat \<Rightarrow> (jsnum list \<times> point) list \<times> error option" where
  "getData_loop d coords offset =
     (case readPoint d (Num (int offset)) of
        Inl e \<Rightarrow> ([], Some e)
      | Inr v \<Rightarrow>
          if offset + wordBytes (BITPIX d) < length (dataBuffer d)
          then (case getData_loop d (getData_carry (NAXISn d) (js_incr coords 0) 0)
                       (offset + wordBytes (BITPIX d)) of
                  (ys, r) \<Rightarrow> ((coords, v) # ys, r))
          else ([(coords, v)], None))"
  by pat_completeness auto
termination
proof (relation "measure (\<lambda>(d, coords, offset). length (dataBuffer d) - offset)")
  show "wf (measure (\<lambda>(d, coords, offset). length (dataBuffer d) - offset))" by simp
next
  fix d :: FITSData and coords :: "jsnum list" and offset :: nat and v :: point
  assume "offset + wordBytes (BITPIX d) < length (dataBuffer d)"
  moreover have "0 < wordBytes (BITPIX d)" by (cases "BITPIX d") simp_all
  ultimately show "((d, getData_carry (NAXISn d) (js_incr coords 0) 0, offset + wordBytes (BITPIX d)),
      (d, coords, offset)) \<in> measure (\<lambda>(d, coords, offset). length (dataBuffer d) - offset)"
    by simp
qed

definition getData :: "FITSData \<Rightarrow> (jsnum list \<times> point) list \<times> error option" where
  "getData d =
     (if NAXIS d = 0 then ([], None)
      else getData_loop d (replicate (NAXIS d) (Num 1)) 0)"

text \<open>
  \<^verbatim>\<open>FITSData.fromArray\<close>. The data points are the integers among the JavaScript numbers;
  the IEEE-754 encoders of \<^verbatim>\<open>setFloat32\<close> and \<^verbatim>\<open>setFloat64\<close>, built-ins of the engine,
  are the parameters \<open>enc32\<close> and \<open>enc64\<close>. One case of the switch: it writes the point
  at offset \<^verbatim>\<open>dataView.byteLength\<close>.
\<close>

definition fromArray_write ::
  "(int \<Rightarrow> 32 word) \<Rightarrow> (int \<Rightarrow> 64 word) \<Rightarrow> FITSBITPIX \<Rightarrow> byte list \<Rightarrow> int \<Rightarrow> error + byte list" where
  "fromArray_write enc32 enc64 bitpix view p =
     (case bitpix of
        BITPIX_8 \<Rightarrow> view_set view (length view) (be_bytes 1 p)
      | BITPIX_16 \<Rightarrow> view_set view (length view) (be_bytes 2 p)
      | BITPIX_32 \<Rightarrow> view_set view (length view) (be_bytes 4 p)
      | BITPIX_64 \<Rightarrow> Inl UnsupportedBitDepth
      | BITPIX_m32 \<Rightarrow> view_set view (length view) (be_bytes 4 (uint (enc32 p)))
      | BITPIX_m64 \<Rightarrow> view_set view (length view) (be_bytes 8 (uint (enc64 p))))"

fun fromArray_loop ::
  "(int \<Rightarrow> 32 word) \<Rightarrow> (int \<Rightarrow> 64 word) \<Rightarrow> FITSBITPIX \<Rightarrow> int list \<Rightarrow> byte list \<Rightarrow> error + byte list" where
  "fromArray_loop enc32 enc64 bitpix [] view = Inr view"
| "fromArray_loop enc32 enc64 bitpix (p # ps) view =
     (case fromArray_write enc32 enc64 bitpix view p of
        Inl e \<Rightarrow> Inl e
      | Inr view' \<Rightarrow> fromArray_loop enc32 enc64 bitpix ps view')"

definition fromArray ::
  "(int \<Rightarrow> 32 word) \<Rightarrow> (int \<Rightarrow> 64 word) \<Rightarrow> int list \<Rightarrow> FITSBITPIX \<Rightarrow> int list \<Rightarrow> error + FITSData" where
  "fromArray enc32 enc64 data bitpix axes =
     (let points = foldl (\<lambda>accum len. accum * len) 1 axes in
      if int (length data) \<noteq> points then Inl ShapeMismatch
      else
        (case fromArray_loop enc32 enc64 bitpix data
                (replicate (nat points * wordBytes bitpix) 0) of
           Inl e \<Rightarrow> Inl e
         | Inr buf \<Rightarrow>
             Inr \<lparr>BITPIX = bitpix, NAXIS = length axes, NAXISn = axes, dataBuffer = buf\<rparr>))"

subsection \<open>JavaScript strings\<close>

text \<open>
  A string is a HOL \<open>string\<close>; a character stands for the UTF-16 code unit of the same
  code, so the model covers the strings of code units below 256 (ASCII and Latin-1),
  which is what a decoded FITS record holds. \<open>length\<close> is \<^verbatim>\<open>.length\<close>.
\<close>

definition code :: "char \<Rightarrow> nat" where
  "code c = of_char c"

definition in_range :: "nat \<Rightarrow> nat \<Rightarrow> char \<Rightarrow> bool" where
  "in_range lo hi c = (lo \<le> code c \<and> code c \<le> hi)"

text \<open>
  White space and line terminators of ECMAScript, among the code units below 256: TAB,
  LF, VT, FF, CR, SPACE and NO-BREAK SPACE.
\<close>

definition js_whitespace :: "char \<Rightarrow> bool" where
  "js_whitespace c = (in_range 9 13 c \<or> code c = 32 \<or> code c = 160)"

definition trimEnd :: "string \<Rightarrow> string" where
  "trimEnd s = rev (dropWhile js_whitespace (rev s))"

definition trim :: "string \<Rightarrow> string" where
  "trim s = trimEnd (dropWhile js_whitespace s)"

definition padEnd :: "string \<Rightarrow> nat \<Rightarrow> string" where
  "padEnd s n = s @ replicate (n - length s) (CHR '' '')"

definition padStart :: "string \<Rightarrow> nat \<Rightarrow> string" where
  "padStart s n = replicate (n - length s) (CHR '' '') @ s"

definition startsWith :: "string \<Rightarrow> string \<Rightarrow> bool" where
  "startsWith s p = (take (length p) s = p)"

definition endsWith :: "string \<Rightarrow> string \<Rightarrow> bool" where
  "endsWith s p = (length p \<le> length s \<and> drop (length s - length p) s = p)"

text \<open>
  \<^verbatim>\<open>s.slice(a, b)\<close> and \<^verbatim>\<open>s.slice(a)\<close>: a negative index counts from the end, and both
  are clamped to the string.
\<close>

definition slice_index :: "string \<Rightarrow> int \<Rightarrow> nat" where
  "slice_index s k = (if k < 0 then nat (int (length s) + k) else min (nat k) (length s))"

definition slice :: "string \<Rightarrow> int \<Rightarrow> int \<Rightarrow> string" where
  "slice s a b = take (slice_index s b - slice_index s a) (drop (slice_index s a) s)"

definition slice_from :: "string \<Rightarrow> int \<Rightarrow> string" where
  "slice_from s a = drop (slice_index s a) s"

text \<open>\<^verbatim>\<open>s.indexOf(p)\<close>: the first index at which \<open>p\<close> occurs, or -1.\<close>

fun indexOf_from :: "nat \<Rightarrow> string \<Rightarrow> string \<Rightarrow> int" where
  "indexOf_from i [] p = (if p = [] then int i else -1)"
| "indexOf_from i (x # xs) p =
     (if startsWith (x # xs) p then int i else indexOf_from (Suc i) xs p)"

definition indexOf :: "string \<Rightarrow> string \<Rightarrow> int" where
  "indexOf s p = indexOf_from 0 s p"

text \<open>\<^verbatim>\<open>s.replaceAll(c, r)\<close> and \<^verbatim>\<open>s.replace(c, r)\<close> for a one-character pattern \<open>c\<close>.\<close>

definition replaceAll :: "string \<Rightarrow> char \<Rightarrow> string \<Rightarrow> string" where
  "replaceAll s c r = concat (map (\<lambda>x. if x = c then r else [x]) s)"

fun replace_first :: "string \<Rightarrow> char \<Rightarrow> string \<Rightarrow> string" where
  "replace_first [] c r = []"
| "replace_first (x # xs) c r = (if x = c then r @ xs else x # replace_first xs c r)"

text \<open>\<^verbatim>\<open>s.split(c)\<close> for a one-character separator: never an empty list.\<close>

fun split :: "string \<Rightarrow> char \<Rightarrow> string list" where
  "split [] c = [[]]"
| "split (x # xs) c =
     (if x = c then [] # split xs c
      else (case split xs c of p # ps \<Rightarrow> (x # p) # ps | [] \<Rightarrow> [[x]]))"

text \<open>
  \<^verbatim>\<open>s.toUpperCase()\<close>: the letters a to z and the Latin-1 letters with an upper case in
  Latin-1. The three code units whose upper case is not one code unit below 256 (181,
  223 and 255) are outside the model and left as they are.
\<close>

definition toUpperCase_char :: "char \<Rightarrow> char" where
  "toUpperCase_char c =
     (if in_range 97 122 c \<or> (in_range 224 254 c \<and> code c \<noteq> 247)
      then char_of (code c - 32) else c)"

definition toUpperCase :: "string \<Rightarrow> string" where
  "toUpperCase s = map toUpperCase_char s"

text \<open>\<^verbatim>\<open>new TextEncoder().encode(s)\<close>: UTF-8, two bytes for a code unit from 128 on.\<close>

definition utf8_char :: "char \<Rightarrow> byte list" where
  "utf8_char c =
     (if code c < 128 then [of_nat (code c)]
      else [of_nat (192 + code c div 64), of_nat (128 + code c mod 64)])"

definition TextEncoder_encode :: "string \<Rightarrow> byte list" where
  "TextEncoder_encode s = concat (map utf8_char s)"

subsection \<open>Regular expressions\<close>

text \<open>
  The regular expressions of the source are kept as data and run by a backtracking
  matcher that follows ECMAScript: alternatives left to right, greedy quantifiers the
  longest repetition first, lazy ones the shortest first, an iteration of a star that
  consumes nothing rejected. \<open>Cls p\<close> is one character of the class \<open>p\<close>, \<open>Bol\<close> and
  \<open>Eol\<close> are \<^verbatim>\<open>^\<close> and \<^verbatim>\<open>$\<close> (no multiline flag), \<open>Grp n r\<close> the named group
  \<^verbatim>\<open>(?<n>r)\<close>.
\<close>

datatype re =
    Cls "char \<Rightarrow> bool"
  | Eps
  | Bol
  | Eol
  | Seq re re
  | Alt re re
  | Star re
  | LazyStar re
  | Grp string re

type_synonym groups = "(string \<times> string) list"

text \<open>
  \<open>rmatch r i s c k\<close>: match \<open>r\<close> at index \<open>i\<close>, where \<open>s\<close> is the input from \<open>i\<close> on and
  \<open>c\<close> the groups captured so far, then continue with \<open>k\<close>; \<open>None\<close> is failure, on
  which the caller backtracks.
\<close>

function rmatch ::
  "re \<Rightarrow> nat \<Rightarrow> string \<Rightarrow> groups \<Rightarrow> (nat \<Rightarrow> string \<Rightarrow> groups \<Rightarrow> 'a option) \<Rightarrow> 'a option" where
  "rmatch (Cls p) i s c k =
     (case s of [] \<Rightarrow> None | x # xs \<Rightarrow> if p x then k (Suc i) xs c else None)"
| "rmatch Eps i s c k = k i s c"
| "rmatch Bol i s c k = (if i = 0 then k i s c else None)"
| "rmatch Eol i s c k = (if s = [] then k i s c else None)"
| "rmatch (Seq a b) i s c k = rmatch a i s c (\<lambda>i' s' c'. rmatch b i' s' c' k)"
| "rmatch (Alt a b) i s c k =
     (case rmatch a i s c k of Some m \<Rightarrow> Some m | None \<Rightarrow> rmatch b i s c k)"
| "rmatch (Star a) i s c k =
     (case rmatch a i s c
             (\<lambda>i' s' c'. if length s' < length s then rmatch (Star a) i' s' c' k else None) of
        Some m \<Rightarrow> Some m
      | None \<Rightarrow> k i s c)"
| "rmatch (LazyStar a) i s c k =
     (case k i s c of
        Some m \<Rightarrow> Some m
      | None \<Rightarrow>
          rmatch a i s c
            (\<lambda>i' s' c'. if length s' < length s then rmatch (LazyStar a) i' s' c' k else None))"
| "rmatch (Grp n a) i s c k =
     rmatch a i s c (\<lambda>i' s' c'. k i' s' ((n, take (length s - length s') s) # c'))"
  by pat_completeness auto
termination
  by (relation "inv_image (less_than <*lex*> less_than) (\<lambda>(r, i, s, c, k). (size r, length s))")
     auto

text \<open>
  The search of \<^verbatim>\<open>RegExpBuiltinExec\<close>: the first index from \<open>i\<close> on at which the
  pattern matches; the result is the end index of the match and its groups.
\<close>

fun regex_scan :: "re \<Rightarrow> nat \<Rightarrow> string \<Rightarrow> (nat \<times> groups) option" where
  "regex_scan r i [] = rmatch r i [] [] (\<lambda>e s' c. Some (e, c))"
| "regex_scan r i (x # xs) =
     (case rmatch r i (x # xs) [] (\<lambda>e s' c. Some (e, c)) of
        Some m \<Rightarrow> Some m
      | None \<Rightarrow> regex_scan r (Suc i) xs)"

text \<open>\<^verbatim>\<open>r.exec(s)?.groups\<close> for a pattern without the \<^verbatim>\<open>g\<close> flag: the search starts at 0.\<close>

definition regex_exec :: "re \<Rightarrow> string \<Rightarrow> groups option" where
  "regex_exec r s = map_option snd (regex_scan r 0 s)"

text \<open>
  \<^verbatim>\<open>r.test(s)\<close> for a pattern with the \<^verbatim>\<open>g\<close> flag: the search starts at
  \<^verbatim>\<open>r.lastIndex\<close>, which the call sets to the end of the match, or to 0 when there is
  none. The result is the answer and the new \<^verbatim>\<open>lastIndex\<close>.
\<close>

definition regex_test_global :: "re \<Rightarrow> nat \<Rightarrow> string \<Rightarrow> bool \<times> nat" where
  "regex_test_global r lastIndex s =
     (if lastIndex > length s then (False, 0)
      else (case regex_scan r lastIndex (drop lastIndex s) of
              None \<Rightarrow> (False, 0)
            | Some (e, c) \<Rightarrow> (True, e)))"

text \<open>Derived forms: sequences, alternatives, literals and the other quantifiers.\<close>

fun seqs :: "re list \<Rightarrow> re" where
  "seqs [] = Eps"
| "seqs [r] = r"
| "seqs (r # rs) = Seq r (seqs rs)"

fun alts :: "re list \<Rightarrow> re" where
  "alts [] = Eps"
| "alts [r] = r"
| "alts (r # rs) = Alt r (alts rs)"

definition chr :: "char \<Rightarrow> re" where
  "chr c = Cls (\<lambda>x. x = c)"

definition lit :: "string \<Rightarrow> re" where
  "lit s = seqs (map chr s)"

definition Opt :: "re \<Rightarrow> re" where
  "Opt r = Alt r Eps"

definition Plus :: "re \<Rightarrow> re" where
  "Plus r = Seq r (Star r)"

definition LazyPlus :: "re \<Rightarrow> re" where
  "LazyPlus r = Seq r (LazyStar r)"

text \<open>\<^verbatim>\<open>r{0,n}\<close> and \<^verbatim>\<open>r{m,n}\<close>, greedy.\<close>

fun rep_upto :: "nat \<Rightarrow> re \<Rightarrow> re" where
  "rep_upto 0 r = Eps"
| "rep_upto (Suc n) r = Opt (Seq r (rep_upto n r))"

definition rep_range :: "nat \<Rightarrow> nat \<Rightarrow> re \<Rightarrow> re" where
  "rep_range m n r = seqs (replicate m r @ [rep_upto (n - m) r])"

text \<open>Character classes: \<^verbatim>\<open>\d\<close>, \<^verbatim>\<open>\S\<close>, \<^verbatim>\<open>.\<close> and a space.\<close>

definition digit :: re where
  "digit = Cls (in_range 48 57)"

definition nonspace :: re where
  "nonspace = Cls (\<lambda>c. \<not> js_whitespace c)"

definition anychar :: re where
  "anychar = Cls (\<lambda>c. \<not> (code c = 10 \<or> code c = 13))"

definition sp :: re where
  "sp = chr (CHR '' '')"

subsection \<open>Card (card.ts)\<close>

definition CARD_LENGTH :: nat where
  "CARD_LENGTH = 80"

definition KEYWORD_LENGTH :: nat where
  "KEYWORD_LENGTH = 8"

definition VALUE_INDICATOR :: string where
  "VALUE_INDICATOR = ''= ''"

definition COMMENTARY_KEYWORDS :: "string list" where
  "COMMENTARY_KEYWORDS = ['''', ''HISTORY'', ''COMMENT'', ''END'']"

definition SPECIAL_KEYWORDS :: "string list" where
  "SPECIAL_KEYWORDS = COMMENTARY_KEYWORDS @ [''CONTINUE'']"

text \<open>
  A number held by a card. The code renders it (\<^verbatim>\<open>number.toString()\<close>) and tests it
  (\<^verbatim>\<open>Number.isInteger\<close>, \<^verbatim>\<open>Number.isFinite\<close>), all built-ins of the engine; the model
  keeps a number as the text \<^verbatim>\<open>toString()\<close> returns for it, for instance 8, -32, 0.5,
  1e+21, NaN, and reads the two tests off that text.
\<close>

datatype jsnumber = JSNumber (toString: string)

definition Number_isFinite :: "jsnumber \<Rightarrow> bool" where
  "Number_isFinite x =
     (toString x \<noteq> ''NaN'' \<and> toString x \<noteq> ''Infinity'' \<and> toString x \<noteq> ''-Infinity'')"

text \<open>
  A finite number is an integer when its rendering has no fraction: no decimal point in
  the plain notation; in the exponent notation, used from 1e+21 on and below 1e-6, a
  positive exponent (at most 17 digits before an exponent of 21 or more).
\<close>

definition Number_isInteger :: "jsnumber \<Rightarrow> bool" where
  "Number_isInteger x =
     (Number_isFinite x \<and>
      (if CHR ''e'' \<in> set (toString x) then CHR ''-'' \<notin> set (dropWhile (\<lambda>c. c \<noteq> CHR ''e'') (toString x))
       else CHR ''.'' \<notin> set (toString x)))"

text \<open>\<^verbatim>\<open>FITSCardValue = string | number | [real, imaginary] | boolean | null\<close>\<close>

datatype FITSCardValue =
    StringValue string
  | NumberValue jsnumber
  | ComplexValue jsnumber jsnumber
  | BooleanValue bool
  | NullValue

text \<open>\<^verbatim>\<open>typeof value === "string"\<close>\<close>

fun is_string :: "FITSCardValue \<Rightarrow> bool" where
  "is_string (StringValue s) = True"
| "is_string _ = False"

text \<open>
  The fields of a card. \<open>image'\<close> and \<open>value'\<close> are \<^verbatim>\<open>image\<close> and \<^verbatim>\<open>value\<close>, names
  that Isabelle has taken; \<open>comment = None\<close> is \<^verbatim>\<open>null\<close>.
\<close>

record Card =
  image' :: string
  keyword :: string
  value' :: FITSCardValue
  comment :: "string option"

text \<open>The character classes of the patterns.\<close>

definition keyword_char :: "char \<Rightarrow> bool" where
  "keyword_char c = (in_range 65 90 c \<or> in_range 48 57 c \<or> c = CHR ''_'' \<or> c = CHR ''-'')"

definition printable :: "char \<Rightarrow> bool" where
  "printable c = in_range 32 126 c"

definition printable_but_quote :: "char \<Rightarrow> bool" where
  "printable_but_quote c = (in_range 32 38 c \<or> in_range 40 126 c)"

definition printable_but_equals :: "char \<Rightarrow> bool" where
  "printable_but_equals c = (in_range 32 60 c \<or> in_range 62 126 c)"

text \<open>\<^verbatim>\<open>/^[A-Z0-9_-]{0,8}$/g\<close>\<close>

definition keywordRegex :: re where
  "keywordRegex = seqs [Bol, rep_upto 8 (Cls keyword_char), Eol]"

text \<open>\<^verbatim>\<open>/^HIERARCH {2}[\x20-\x3C\x3E-\x7E]+$/g\<close>\<close>

definition hierarchRegex :: re where
  "hierarchRegex = seqs [Bol, lit ''HIERARCH'', sp, sp, Plus (Cls printable_but_equals), Eol]"

text \<open>\<^verbatim>\<open>/^[\x20-\x7E]*$/g\<close>\<close>

definition asciiRegex :: re where
  "asciiRegex = seqs [Bol, Star (Cls printable), Eol]"

text \<open>\<^verbatim>\<open>[+-]?(?:\.\d+|\d+(?:\.\d*)?)(?:[DE][+-]?\d+)?\<close>\<close>

definition numberRegex :: re where
  "numberRegex =
     seqs [Opt (Cls (\<lambda>c. c = CHR ''+'' \<or> c = CHR ''-'')),
           Alt (Seq (chr CHR ''.'') (Plus digit))
               (Seq (Plus digit) (Opt (Seq (chr CHR ''.'') (Star digit)))),
           Opt (seqs [Cls (\<lambda>c. c = CHR ''D'' \<or> c = CHR ''E''),
                      Opt (Cls (\<lambda>c. c = CHR ''+'' \<or> c = CHR ''-'')),
                      Plus digit])]"

text \<open>
  \<^verbatim>\<open>valueCommentRegex\<close>, the four alternatives in the order of the source: a quoted
  string, a logical, a number, a complex pair; then the optional comment.
\<close>

definition valueCommentRegex :: re where
  "valueCommentRegex =
     seqs [Bol, Opt (chr CHR ''=''), Star sp,
           alts [seqs [chr (CHR 0x27),
                       Grp ''value_str''
                         (LazyStar (Alt (Cls printable_but_quote)
                                        (Seq (chr (CHR 0x27)) (chr (CHR 0x27))))),
                       Star sp, chr (CHR 0x27)],
                 Grp ''value_bool'' (Cls (\<lambda>c. c = CHR ''F'' \<or> c = CHR ''T'')),
                 Grp ''value_real'' numberRegex,
                 seqs [chr CHR ''('', Star sp, Grp ''value_cplx_r'' numberRegex, Star sp,
                       chr CHR '','', Star sp, Grp ''value_cplx_i'' numberRegex, Star sp,
                       chr CHR '')'']],
           Star sp,
           Opt (seqs [chr CHR ''/'', Star sp, Grp ''comment'' (LazyPlus anychar), Star sp]),
           Eol]"

text \<open>
  The three patterns tested with \<^verbatim>\<open>test\<close> carry the \<^verbatim>\<open>g\<close> flag and are created once,
  when the module is loaded: their \<^verbatim>\<open>lastIndex\<close> is state shared by all calls. (The
  four patterns of header.ts are in the same case.)
\<close>

record regexes =
  keywordRegex_lastIndex :: nat
  hierarchRegex_lastIndex :: nat
  asciiRegex_lastIndex :: nat
  fitsCardIntegerRegExp_lastIndex :: nat
  fitsCardRealRegExp_lastIndex :: nat
  fitsCardStringRegExp_lastIndex :: nat
  fitsCardLogicalRegExp_lastIndex :: nat

text \<open>The state of a freshly loaded module.\<close>

definition fresh :: regexes where
  "fresh = \<lparr>keywordRegex_lastIndex = 0, hierarchRegex_lastIndex = 0, asciiRegex_lastIndex = 0,
            fitsCardIntegerRegExp_lastIndex = 0, fitsCardRealRegExp_lastIndex = 0,
            fitsCardStringRegExp_lastIndex = 0, fitsCardLogicalRegExp_lastIndex = 0\<rparr>"

definition test_keywordRegex :: "string \<Rightarrow> regexes \<Rightarrow> bool \<times> regexes" where
  "test_keywordRegex s st =
     (case regex_test_global keywordRegex (keywordRegex_lastIndex st) s of
        (b, li) \<Rightarrow> (b, st\<lparr>keywordRegex_lastIndex := li\<rparr>))"

definition test_hierarchRegex :: "string \<Rightarrow> regexes \<Rightarrow> bool \<times> regexes" where
  "test_hierarchRegex s st =
     (case regex_test_global hierarchRegex (hierarchRegex_lastIndex st) s of
        (b, li) \<Rightarrow> (b, st\<lparr>hierarchRegex_lastIndex := li\<rparr>))"

definition test_asciiRegex :: "string \<Rightarrow> regexes \<Rightarrow> bool \<times> regexes" where
  "test_asciiRegex s st =
     (case regex_test_global asciiRegex (asciiRegex_lastIndex st) s of
        (b, li) \<Rightarrow> (b, st\<lparr>asciiRegex_lastIndex := li\<rparr>))"

text \<open>
  \<^verbatim>\<open>realToString\<close>. \<^verbatim>\<open>output.split("E")\<close> has one element when there is no exponent:
  \<^verbatim>\<open>exponent\<close> is then \<^verbatim>\<open>undefined\<close> and \<^verbatim>\<open>exponent.length\<close> throws a TypeError.
\<close>

definition realToString :: "jsnumber \<Rightarrow> error + string" where
  "realToString number =
     (let output = replace_first (toString number) (CHR ''e'') ''E'' in
      if length output > 20 then
        (case split output (CHR ''E'') of
           mantissa # exponent # rest \<Rightarrow>
             (let mantissa' = slice mantissa 0 (20 - int (length exponent)) in
              Inr (if length exponent > 0 then mantissa' @ ''E'' @ exponent else mantissa'))
         | _ \<Rightarrow> Inl PropertyOfUndefined)
      else Inr output)"

text \<open>
  \<^verbatim>\<open>valueToString(value, fixFrom)\<close>; \<open>fixFrom = None\<close> is \<^verbatim>\<open>null\<close>. A string returns
  at once: quoted with its quotes doubled and padded on the right in the fixed format,
  quoted as it is otherwise. The other values are rendered to \<^verbatim>\<open>raw\<close> and padded on
  the left in the fixed format.
\<close>

definition fixed_format :: "error + string \<Rightarrow> nat option \<Rightarrow> error + string" where
  "fixed_format raw fixFrom =
     (case raw of
        Inl e \<Rightarrow> Inl e
      | Inr r \<Rightarrow> (case fixFrom of Some f \<Rightarrow> Inr (padStart r (30 - f)) | None \<Rightarrow> Inr r))"

definition valueToString :: "FITSCardValue \<Rightarrow> nat option \<Rightarrow> error + string" where
  "valueToString v fixFrom =
     (case v of
        StringValue s \<Rightarrow>
          (case fixFrom of
             Some f \<Rightarrow>
               Inr (padEnd ([CHR 0x27] @ replaceAll s (CHR 0x27) [CHR 0x27, CHR 0x27] @ [CHR 0x27])
                      (30 - f))
           | None \<Rightarrow> Inr ([CHR 0x27] @ s @ [CHR 0x27]))
      | NullValue \<Rightarrow> fixed_format (Inr []) fixFrom
      | BooleanValue b \<Rightarrow> fixed_format (Inr (if b then ''T'' else ''F'')) fixFrom
      | NumberValue x \<Rightarrow> fixed_format (realToString x) fixFrom
      | ComplexValue re im \<Rightarrow>
          fixed_format
            (case realToString re of
               Inl e \<Rightarrow> Inl e
             | Inr r \<Rightarrow> (case realToString im of
                           Inl e \<Rightarrow> Inl e
                         | Inr i \<Rightarrow> Inr (''('' @ r @ '','' @ i @ '')'')))
            fixFrom)"

text \<open>
  \<^verbatim>\<open>Card.fromValue\<close>, second half (from \<^verbatim>\<open>let image = ""\<close> on), which touches no
  pattern but the second \<^verbatim>\<open>hierarchRegex.test(keyword)\<close>, whose answer is \<open>hierarch\<close>.
  \<^verbatim>\<open>comment!.slice\<close> on a \<^verbatim>\<open>null\<close> comment would be the engine's TypeError.
\<close>

definition new_Card :: "string \<Rightarrow> string \<Rightarrow> FITSCardValue \<Rightarrow> string option \<Rightarrow> Card" where
  "new_Card img k v c = \<lparr>image' = img, keyword = k, value' = v, comment = c\<rparr>"

definition fromValue_image ::
  "string \<Rightarrow> FITSCardValue \<Rightarrow> string option \<Rightarrow> bool \<Rightarrow> error + Card" where
  "fromValue_image k v c hierarch =
     (let image0 = (if hierarch then k @ '' '' else padEnd k KEYWORD_LENGTH);
          image1 = image0 @ (if k \<in> set SPECIAL_KEYWORDS then ''  '' else VALUE_INDICATOR);
          commentValue = (case c of Some text \<Rightarrow> trimEnd ('' / '' @ text) | None \<Rightarrow> [])
      in
      case valueToString v (Some (length image1)) of
        Inl e \<Rightarrow> Inl e
      | Inr imageValue \<Rightarrow>
          if length image1 + length imageValue + length commentValue > CARD_LENGTH then
            (case valueToString v None of
               Inl e \<Rightarrow> Inl e
             | Inr imageValue2 \<Rightarrow>
                 if length image1 + length imageValue2 + length commentValue > CARD_LENGTH then
                   (let maxCommentLength =
                          int CARD_LENGTH - int (length image1) - int (length imageValue2)
                    in
                    if maxCommentLength < 0 then Inl RecordTooLong
                    else if maxCommentLength < 6 then
                      Inr (new_Card (padEnd (image1 @ imageValue2) CARD_LENGTH) k v None)
                    else
                      (case c of
                         None \<Rightarrow> Inl PropertyOfUndefined
                       | Some text \<Rightarrow>
                           (let c' = slice text 0 (maxCommentLength - 6) @ ''...'' in
                            Inr (new_Card (padEnd (image1 @ imageValue2 @ '' / '' @ c') CARD_LENGTH)
                                   k v (Some c')))))
                 else Inr (new_Card (padEnd (image1 @ imageValue2 @ commentValue) CARD_LENGTH) k v c))
          else Inr (new_Card (padEnd (image1 @ imageValue @ commentValue) CARD_LENGTH) k v c))"

text \<open>
  \<^verbatim>\<open>Card.fromValue(keyword, value, comment = null)\<close>: the checks, each \<^verbatim>\<open>test\<close> moving
  the \<^verbatim>\<open>lastIndex\<close> of its pattern, then the image. The state is returned with the
  result, also when the call throws.
\<close>

definition fromValue ::
  "string \<Rightarrow> FITSCardValue \<Rightarrow> string option \<Rightarrow> regexes \<Rightarrow> (error + Card) \<times> regexes" where
  "fromValue keyword0 v c st0 =
     (let k = trimEnd keyword0 in
      case test_hierarchRegex k st0 of (h1, st1) \<Rightarrow>
      if h1 \<and> length k > CARD_LENGTH then (Inl HierarchTooLong, st1)
      else
        case test_keywordRegex k st1 of (kw, st2) \<Rightarrow>
        if \<not> kw then (Inl InvalidKeyword, st2)
        else if k = ''END'' \<and> \<not> (v = NullValue \<and> c = None) then (Inl EndHasValueOrComment, st2)
        else if k = ''CONTINUE'' \<and> \<not> is_string v then (Inl ContinueNotString, st2)
        else
          case (case v of StringValue s \<Rightarrow> test_asciiRegex s st2 | _ \<Rightarrow> (True, st2)) of
            (a1, st3) \<Rightarrow>
          if \<not> a1 then (Inl NonAsciiValue, st3)
          else
            case (case c of Some text \<Rightarrow> test_asciiRegex text st3 | None \<Rightarrow> (True, st3)) of
              (a2, st4) \<Rightarrow>
            if \<not> a2 then (Inl NonAsciiComment, st4)
            else
              case test_hierarchRegex k st4 of (h2, st5) \<Rightarrow>
                (fromValue_image k v c h2, st5))"

text \<open>
  \<^verbatim>\<open>stringToReal\<close>: \<^verbatim>\<open>Number.parseFloat\<close>, a built-in of the engine, is the parameter
  \<open>parseFloat\<close>; \<^verbatim>\<open>/[de]/gi\<close> matches the four letters d, D, e and E.
\<close>

definition stringToReal :: "(string \<Rightarrow> jsnumber) \<Rightarrow> string \<Rightarrow> jsnumber" where
  "stringToReal parseFloat number =
     parseFloat (map (\<lambda>x. if x \<in> set ''dDeE'' then CHR ''e'' else x) number)"

text \<open>
  The value \<^verbatim>\<open>Card.fromString\<close> reads off the groups of a match; a group that is
  \<^verbatim>\<open>undefined\<close> or empty is falsy.
\<close>

definition truthy :: "string option \<Rightarrow> bool" where
  "truthy g = (case g of Some s \<Rightarrow> s \<noteq> [] | None \<Rightarrow> False)"

definition group_value :: "(string \<Rightarrow> jsnumber) \<Rightarrow> groups \<Rightarrow> FITSCardValue" where
  "group_value parseFloat result =
     (case map_of result ''value_str'' of
        Some s \<Rightarrow> StringValue s
      | None \<Rightarrow>
          if truthy (map_of result ''value_bool'')
          then BooleanValue (map_of result ''value_bool'' = Some ''T'')
          else if truthy (map_of result ''value_real'')
          then NumberValue (stringToReal parseFloat (the (map_of result ''value_real'')))
          else if truthy (map_of result ''value_cplx_r'') \<and> truthy (map_of result ''value_cplx_i'')
          then ComplexValue (stringToReal parseFloat (the (map_of result ''value_cplx_r'')))
                            (stringToReal parseFloat (the (map_of result ''value_cplx_i'')))
          else NullValue)"

text \<open>\<^verbatim>\<open>Card.fromString(image, pad = true)\<close>\<close>

definition fromString :: "(string \<Rightarrow> jsnumber) \<Rightarrow> string \<Rightarrow> bool \<Rightarrow> error + Card" where
  "fromString parseFloat image0 pad =
     (if \<not> pad \<and> length image0 \<noteq> CARD_LENGTH then Inl WrongImageLength
      else
        (let img = (if pad then padEnd image0 CARD_LENGTH else image0);
             k = trimEnd (slice img 0 (int KEYWORD_LENGTH));
             valueComment = slice_from img (int KEYWORD_LENGTH)
         in
         if k \<in> set COMMENTARY_KEYWORDS then
           (let v = (if startsWith valueComment VALUE_INDICATOR
                     then slice_from valueComment (int (length VALUE_INDICATOR))
                     else valueComment)
            in Inr (new_Card img k (StringValue (trim v)) None))
         else
           (let vi = indexOf valueComment VALUE_INDICATOR;
                k' = (if k = ''HIERARCH'' then trimEnd (slice valueComment 0 vi) else k);
                valueComment' = (if k = ''HIERARCH''
                                 then slice_from valueComment (vi + int (length VALUE_INDICATOR))
                                 else valueComment)
            in
            case regex_exec valueCommentRegex valueComment' of
              None \<Rightarrow> Inl MalformedCard
            | Some result \<Rightarrow>
                (let v = group_value parseFloat result in
                 if k' = ''CONTINUE'' \<and> \<not> is_string v then Inl ContinueNotString
                 else Inr (new_Card img k' v (map_of result ''comment''))))))"

text \<open>
  The characters one byte long in UTF-8. Every rendering of a JavaScript number is made
  of them; \<open>ascii_numbers\<close> says so of the numbers of a value, whose renderings the model
  leaves free.
\<close>

definition ascii :: "char \<Rightarrow> bool" where
  "ascii c = (code c < 128)"

fun ascii_numbers :: "FITSCardValue \<Rightarrow> bool" where
  "ascii_numbers (NumberValue x) = list_all ascii (toString x)"
| "ascii_numbers (ComplexValue re im) =
     (list_all ascii (toString re) \<and> list_all ascii (toString im))"
| "ascii_numbers v = True"

subsection \<open>FITSHeader (header.ts)\<close>

text \<open>
  The four patterns that classify a keyword. In each, \<^verbatim>\<open>^\<close> belongs to the first
  alternative only and \<^verbatim>\<open>$\<close> to the last one, as the source writes them, and each
  carries the \<^verbatim>\<open>g\<close> flag.
\<close>

definition fitsCardIntegerRegExp :: re where
  "fitsCardIntegerRegExp =
     alts [Seq Bol (lit ''BITPIX''), lit ''BLANK'', lit ''EXTLEVEL'', lit ''EXTVER'', lit ''GCOUNT'',
           Seq (lit ''NAXIS'') (rep_range 0 3 digit), lit ''PCOUNT'',
           Seq (lit ''TBCOL'') (rep_range 1 3 digit), lit ''TFIELDS'', Seq (lit ''THEAP'') Eol]"

definition fitsCardRealRegExp :: re where
  "fitsCardRealRegExp =
     alts [Seq Bol (lit ''BSCALE''), lit ''BZERO'',
           Seq (lit ''CDELT'') (rep_range 1 3 digit), Seq (lit ''CROTA'') (rep_range 1 3 digit),
           Seq (lit ''CRPIX'') (rep_range 1 3 digit), Seq (lit ''CRVAL'') (rep_range 1 3 digit),
           lit ''DATAMAX'', lit ''DATAMIN'', lit ''EPOCH'', lit ''EQUINOX'',
           Seq (lit ''PSCAL'') (rep_range 1 3 digit), Seq (lit ''PZERO'') (rep_range 1 3 digit),
           Seq (lit ''TSCAL'') (rep_range 1 3 digit),
           seqs [lit ''TZERO'', rep_range 1 3 digit, Eol]]"

definition fitsCardStringRegExp :: re where
  "fitsCardStringRegExp =
     alts [Seq Bol (lit ''AUTHOR''), lit ''BUNIT'',
           Seq (lit ''CTYPE'') (rep_range 1 3 digit), Seq (lit ''DATE'') (rep_range 0 4 nonspace),
           lit ''EXTNAME'', lit ''INSTRUME'', lit ''OBJECT'', lit ''OBSERVER'', lit ''ORIGIN'',
           Seq (lit ''PTYPE'') (rep_range 1 3 digit), lit ''REFERENC'',
           Seq (lit ''TDIM'') (rep_range 1 3 digit), Seq (lit ''TDISP'') (rep_range 1 3 digit),
           lit ''TELESCOP'', Seq (lit ''TFORM'') (rep_range 1 3 digit),
           Seq (lit ''TTYPE'') (rep_range 1 3 digit), Seq (lit ''TUNIT'') (rep_range 1 3 digit),
           Seq (lit ''XTENSION'') Eol]"

definition fitsCardLogicalRegExp :: re where
  "fitsCardLogicalRegExp =
     alts [Seq Bol (lit ''BLOCKED''), lit ''EXTEND'', lit ''GROUPS'', Seq (lit ''SIMPLE'') Eol]"

definition isFITSCardInteger :: "string \<Rightarrow> regexes \<Rightarrow> bool \<times> regexes" where
  "isFITSCardInteger s st =
     (case regex_test_global fitsCardIntegerRegExp (fitsCardIntegerRegExp_lastIndex st) s of
        (b, li) \<Rightarrow> (b, st\<lparr>fitsCardIntegerRegExp_lastIndex := li\<rparr>))"

definition isFITSCardReal :: "string \<Rightarrow> regexes \<Rightarrow> bool \<times> regexes" where
  "isFITSCardReal s st =
     (case regex_test_global fitsCardRealRegExp (fitsCardRealRegExp_lastIndex st) s of
        (b, li) \<Rightarrow> (b, st\<lparr>fitsCardRealRegExp_lastIndex := li\<rparr>))"

definition isFITSCardString :: "string \<Rightarrow> regexes \<Rightarrow> bool \<times> regexes" where
  "isFITSCardString s st =
     (case regex_test_global fitsCardStringRegExp (fitsCardStringRegExp_lastIndex st) s of
        (b, li) \<Rightarrow> (b, st\<lparr>fitsCardStringRegExp_lastIndex := li\<rparr>))"

definition isFITSCardLogical :: "string \<Rightarrow> regexes \<Rightarrow> bool \<times> regexes" where
  "isFITSCardLogical s st =
     (case regex_test_global fitsCardLogicalRegExp (fitsCardLogicalRegExp_lastIndex st) s of
        (b, li) \<Rightarrow> (b, st\<lparr>fitsCardLogicalRegExp_lastIndex := li\<rparr>))"

text \<open>The private field \<^verbatim>\<open>#cards\<close>.\<close>

record FITSHeader =
  cards :: "Card list"

text \<open>\<^verbatim>\<open>xs.at(i)\<close> for \<open>i\<close> from 0 on, and \<^verbatim>\<open>xs[i]\<close> for a number \<open>i\<close>: \<open>None\<close> is \<^verbatim>\<open>undefined\<close>.\<close>

definition at :: "'a list \<Rightarrow> nat \<Rightarrow> 'a option" where
  "at xs i = (if i < length xs then Some (xs ! i) else None)"

definition at_number :: "'a list \<Rightarrow> int \<Rightarrow> 'a option" where
  "at_number xs i = (if 0 \<le> i \<and> i < int (length xs) then Some (xs ! nat i) else None)"

text \<open>
  \<^verbatim>\<open>this.#cards.map((c, i) => [c, i]).filter(([card]) => card.keyword === keyword)\<close>
\<close>

definition matching :: "Card list \<Rightarrow> string \<Rightarrow> (Card \<times> nat) list" where
  "matching cs k = filter (\<lambda>(c, i). keyword c = k) (zip cs [0..<length cs])"

text \<open>
  The standard compliance checks of \<^verbatim>\<open>getValues\<close> on one card: the error thrown, if
  any. The four tests run in the order of the \<^verbatim>\<open>else if\<close> chain, up to the first that
  holds.
\<close>

definition getValues_check :: "Card \<Rightarrow> regexes \<Rightarrow> error option \<times> regexes" where
  "getValues_check c st0 =
     (case isFITSCardInteger (keyword c) st0 of (i, st1) \<Rightarrow>
      if i then
        ((case value' c of
            NumberValue x \<Rightarrow> if Number_isInteger x then None else Some TypeMismatch
          | _ \<Rightarrow> Some TypeMismatch), st1)
      else
        case isFITSCardReal (keyword c) st1 of (r, st2) \<Rightarrow>
        if r then
          ((case value' c of
              NumberValue x \<Rightarrow> if Number_isFinite x then None else Some TypeMismatch
            | _ \<Rightarrow> Some TypeMismatch), st2)
        else
          case isFITSCardLogical (keyword c) st2 of (l, st3) \<Rightarrow>
          if l then
            ((case value' c of BooleanValue b \<Rightarrow> None | _ \<Rightarrow> Some TypeMismatch), st3)
          else
            case isFITSCardString (keyword c) st3 of (s, st4) \<Rightarrow>
            if s then
              ((case value' c of StringValue t \<Rightarrow> None | _ \<Rightarrow> Some TypeMismatch), st4)
            else (None, st4))"

text \<open>\<^verbatim>\<open>string + value\<close>: the value as the concatenation converts it.\<close>

fun String_of :: "FITSCardValue \<Rightarrow> string" where
  "String_of (StringValue s) = s"
| "String_of (NumberValue x) = toString x"
| "String_of (ComplexValue re im) = toString re @ '','' @ toString im"
| "String_of (BooleanValue b) = (if b then ''true'' else ''false'')"
| "String_of NullValue = ''null''"

text \<open>
  The loop that resolves a CONTINUE chain:
  \<^verbatim>\<open>while (v.endsWith("&") && this.#cards.at(i + 1)?.keyword === "CONTINUE")\<close>
  \<^verbatim>\<open>{ v = v.slice(0, -1) + this.#cards.at(i + 1)!.value; i++ }\<close>.
\<close>

definition continues :: "Card list \<Rightarrow> nat \<Rightarrow> bool" where
  "continues cs i = (case at cs i of Some c \<Rightarrow> keyword c = ''CONTINUE'' | None \<Rightarrow> False)"

function getValues_chain :: "Card list \<Rightarrow> string \<Rightarrow> nat \<Rightarrow> string" where
  "getValues_chain cs v i =
     (if endsWith v ''&'' \<and> continues cs (i + 1)
      then getValues_chain cs (slice v 0 (- 1) @ String_of (value' (cs ! (i + 1)))) (i + 1)
      else v)"
  by pat_completeness auto
termination
proof (relation "measure (\<lambda>(cs, v, i). length cs - i)")
  show "wf (measure (\<lambda>(cs, v, i). length cs - i))" by simp
next
  fix cs :: "Card list" and v :: string and i :: nat
  assume "endsWith v ''&'' \<and> continues cs (i + 1)"
  then have "i + 1 < length cs"
    by (auto simp: continues_def at_def split: if_splits)
  then show "((cs, slice v 0 (- 1) @ String_of (value' (cs ! (i + 1))), i + 1), (cs, v, i))
      \<in> measure (\<lambda>(cs, v, i). length cs - i)"
    by simp
qed

text \<open>The body of \<^verbatim>\<open>for (const [card, index] of cards)\<close>, over the matching cards.\<close>

fun getValues_loop ::
  "Card list \<Rightarrow> (Card \<times> nat) list \<Rightarrow> regexes \<Rightarrow> (error + FITSCardValue list) \<times> regexes" where
  "getValues_loop cs [] st = (Inr [], st)"
| "getValues_loop cs ((c, index) # rest) st =
     (case getValues_check c st of
        (Some e, st') \<Rightarrow> (Inl e, st')
      | (None, st') \<Rightarrow>
          (case getValues_loop cs rest st' of
             (Inl e, st'') \<Rightarrow> (Inl e, st'')
           | (Inr vs, st'') \<Rightarrow>
               (Inr ((case value' c of
                        StringValue s \<Rightarrow> StringValue (getValues_chain cs s index)
                      | v \<Rightarrow> v) # vs), st'')))"

definition getValues ::
  "FITSHeader \<Rightarrow> string \<Rightarrow> regexes \<Rightarrow> (error + FITSCardValue list) \<times> regexes" where
  "getValues h keyword0 st =
     (let k = toUpperCase (trim keyword0) in
      if k = ''CONTINUE'' \<or> k = [] then (Inl NotRetrievable, st)
      else getValues_loop (cards h) (matching (cards h) k) st)"

text \<open>\<^verbatim>\<open>getValue\<close>: \<^verbatim>\<open>this.getValues(keyword).at(0)\<close>; \<open>None\<close> is \<^verbatim>\<open>undefined\<close>.\<close>

definition getValue ::
  "FITSHeader \<Rightarrow> string \<Rightarrow> regexes \<Rightarrow> (error + FITSCardValue option) \<times> regexes" where
  "getValue h keyword0 st =
     (case getValues h keyword0 st of
        (Inl e, st') \<Rightarrow> (Inl e, st')
      | (Inr vs, st') \<Rightarrow> (Inr (at vs 0), st'))"

text \<open>
  \<^verbatim>\<open>let n = 1; while (this.#cards.at(cards[index][1] + n)?.keyword === "CONTINUE") n++\<close>
\<close>

function setValue_run :: "Card list \<Rightarrow> nat \<Rightarrow> nat \<Rightarrow> nat" where
  "setValue_run cs ci n = (if continues cs (ci + n) then setValue_run cs ci (n + 1) else n)"
  by pat_completeness auto
termination
proof (relation "measure (\<lambda>(cs, ci, n). length cs - (ci + n))")
  show "wf (measure (\<lambda>(cs, ci, n). length cs - (ci + n)))" by simp
next
  fix cs :: "Card list" and ci n :: nat
  assume "continues cs (ci + n)"
  then have "ci + n < length cs"
    by (auto simp: continues_def at_def split: if_splits)
  then show "((cs, ci, n + 1), (cs, ci, n)) \<in> measure (\<lambda>(cs, ci, n). length cs - (ci + n))"
    by simp
qed

text \<open>\<^verbatim>\<open>xs.splice(start, deleteCount)\<close> and \<^verbatim>\<open>xs.splice(start, 0, item)\<close>, \<open>start\<close> from 0 on.\<close>

definition splice_delete :: "'a list \<Rightarrow> nat \<Rightarrow> nat \<Rightarrow> 'a list" where
  "splice_delete xs start n = take start xs @ drop (start + n) xs"

definition splice_insert :: "'a list \<Rightarrow> nat \<Rightarrow> 'a \<Rightarrow> 'a list" where
  "splice_insert xs start x = take start xs @ [x] @ drop start xs"

text \<open>
  \<^verbatim>\<open>setValue(keyword, value, index = 0)\<close>; \<open>value = None\<close> is \<^verbatim>\<open>undefined\<close>. The method
  changes \<^verbatim>\<open>this.#cards\<close> with \<^verbatim>\<open>push\<close> and \<^verbatim>\<open>splice\<close>: the model returns the number the
  method returns (or its error), the header the receiver has become, and the state of the
  patterns. When \<^verbatim>\<open>cards.length >= index\<close> is false, \<^verbatim>\<open>cards[index]\<close> is read.
\<close>

definition setValue ::
  "FITSHeader \<Rightarrow> string \<Rightarrow> FITSCardValue option \<Rightarrow> int \<Rightarrow> regexes \<Rightarrow>
     (error + int) \<times> FITSHeader \<times> regexes" where
  "setValue h k v index st =
     (if k = ''SIMPLE'' \<or> k = ''CONTINUE'' \<or> k = ''BITPIX'' \<or> startsWith k ''NAXIS''
      then (Inl KeywordNotMutable, h, st)
      else
        (let found = matching (cards h) k in
         if int (length found) \<ge> index then
           (case v of
              Some x \<Rightarrow>
                (case fromValue k x None st of
                   (Inl e, st') \<Rightarrow> (Inl e, h, st')
                 | (Inr made, st') \<Rightarrow>
                     (Inr (int (length (cards h @ [made])) - 1), h\<lparr>cards := cards h @ [made]\<rparr>, st'))
            | None \<Rightarrow> (Inr (- 1), h, st))
         else
           (case at_number found index of
              None \<Rightarrow> (Inl PropertyOfUndefined, h, st)
            | Some (old, ci) \<Rightarrow>
                (let n = setValue_run (cards h) ci 1;
                     removed = splice_delete (cards h) ci n
                 in
                 case v of
                   None \<Rightarrow> (Inr index, h\<lparr>cards := removed\<rparr>, st)
                 | Some x \<Rightarrow>
                     (case fromValue k x None st of
                        (Inl e, st') \<Rightarrow> (Inl e, h\<lparr>cards := removed\<rparr>, st')
                      | (Inr made, st') \<Rightarrow>
                          (Inr index, h\<lparr>cards := splice_insert removed ci made\<rparr>, st'))))))"

text \<open>
  \<^verbatim>\<open>FITSHeader.toBuffer\<close>: the END card is made by \<^verbatim>\<open>Card.fromValue("END", null)\<close>; the
  two loops write the encoded image of card \<open>i\<close> byte by byte from offset \<open>i * 80\<close>.
\<close>

definition setUint8 :: "byte list \<Rightarrow> nat \<Rightarrow> byte \<Rightarrow> error + byte list" where
  "setUint8 view off b = view_set view off [b]"

fun write_record :: "byte list \<Rightarrow> nat \<Rightarrow> nat \<Rightarrow> byte list \<Rightarrow> error + byte list" where
  "write_record view base j [] = Inr view"
| "write_record view base j (b # bs) =
     (case setUint8 view (base + j) b of
        Inl e \<Rightarrow> Inl e
      | Inr view' \<Rightarrow> write_record view' base (Suc j) bs)"

fun write_records :: "byte list \<Rightarrow> nat \<Rightarrow> Card list \<Rightarrow> error + byte list" where
  "write_records view i [] = Inr view"
| "write_records view i (c # cs) =
     (case write_record view (i * CARD_LENGTH) 0 (TextEncoder_encode (image' c)) of
        Inl e \<Rightarrow> Inl e
      | Inr view' \<Rightarrow> write_records view' (Suc i) cs)"

definition header_toBuffer :: "FITSHeader \<Rightarrow> regexes \<Rightarrow> (error + byte list) \<times> regexes" where
  "header_toBuffer h st =
     (case fromValue ''END'' NullValue None st of
        (Inl e, st') \<Rightarrow> (Inl e, st')
      | (Inr end_card, st') \<Rightarrow>
          (write_records (replicate (length (cards h @ [end_card]) * CARD_LENGTH) 0) 0
             (cards h @ [end_card]), st'))"

subsection \<open>FITS (fits.ts)\<close>

definition BLOCK_SIZE :: nat where
  "BLOCK_SIZE = 2880"

record FITS =
  header :: FITSHeader
  data :: FITSData

text \<open>\<^verbatim>\<open>Math.ceil(n / BLOCK_SIZE) * BLOCK_SIZE\<close>\<close>

definition block_ceil :: "nat \<Rightarrow> nat" where
  "block_ceil n = ((n + (BLOCK_SIZE - 1)) div BLOCK_SIZE) * BLOCK_SIZE"

text \<open>
  A loop \<^verbatim>\<open>for (let i = lo; i < hi; i++) view.setUint8(at(i), byte(i))\<close> of
  \<^verbatim>\<open>FITS.toBuffer\<close>, as the list of its indices.
\<close>

fun copy_loop :: "byte list \<Rightarrow> nat list \<Rightarrow> (nat \<Rightarrow> nat) \<Rightarrow> (nat \<Rightarrow> byte) \<Rightarrow> error + byte list" where
  "copy_loop view [] pos byte = Inr view"
| "copy_loop view (i # is) pos byte =
     (case setUint8 view (pos i) (byte i) of
        Inl e \<Rightarrow> Inl e
      | Inr view' \<Rightarrow> copy_loop view' is pos byte)"

definition FITS_toBuffer :: "FITS \<Rightarrow> regexes \<Rightarrow> (error + byte list) \<times> regexes" where
  "FITS_toBuffer f st =
     (case header_toBuffer (header f) st of
        (Inl e, st') \<Rightarrow> (Inl e, st')
      | (Inr headerBuffer, st') \<Rightarrow>
          (let dataBuffer = dataBuffer (data f);
               headerLength = block_ceil (length headerBuffer);
               dataLength = block_ceil (length dataBuffer);
               totalLength = headerLength + dataLength;
               buffer = replicate totalLength 0
           in
           (case copy_loop buffer [0..<length headerBuffer] (\<lambda>i. i) (\<lambda>i. headerBuffer ! i) of
              Inl e \<Rightarrow> Inl e
            | Inr b1 \<Rightarrow>
            (case copy_loop b1 [length headerBuffer..<headerLength] (\<lambda>i. i) (\<lambda>i. 32) of
               Inl e \<Rightarrow> Inl e
             | Inr b2 \<Rightarrow>
             (case copy_loop b2 [0..<length dataBuffer] (\<lambda>i. headerLength + i)
                     (\<lambda>i. dataBuffer ! i) of
                Inl e \<Rightarrow> Inl e
              | Inr b3 \<Rightarrow>
                  copy_loop b3 [length dataBuffer..<dataLength] (\<lambda>i. headerLength + i)
                    (\<lambda>i. 0)))), st'))"

subsection \<open>The reassembled long string, in the words of the specification\<close>

text \<open>
  "The full reassembled string with the \<^verbatim>\<open>&\<close> characters removed": the string of the
  card followed by the strings of its CONTINUE cards, every piece but the last without its
  final character (the \<^verbatim>\<open>&\<close> that announces the continuation).
\<close>

fun reassembled :: "string \<Rightarrow> string list \<Rightarrow> string" where
  "reassembled s [] = s"
| "reassembled s (t # ts) = butlast s @ reassembled t ts"

text \<open>The bytes \<^verbatim>\<open>FITSHeader.toBuffer\<close> writes for one card.\<close>

definition record_bytes :: "Card \<Rightarrow> byte list" where
  "record_bytes c = TextEncoder_encode (image' c)"

subsection \<open>Example data matrices\<close>

text \<open>A one-axis matrix of two bytes, 10 and 20, as \<^verbatim>\<open>FITS.fromBuffer\<close> builds it.\<close>

definition two_bytes :: FITSData where
  "two_bytes = \<lparr>BITPIX = BITPIX_8, NAXIS = 1, NAXISn = [2], dataBuffer = [10, 20]\<rparr>"

text \<open>A one-axis matrix of one 64-bit integer word.\<close>

definition one_int64 :: FITSData where
  "one_int64 = \<lparr>BITPIX = BITPIX_64, NAXIS = 1, NAXISn = [1], dataBuffer = replicate 8 0\<rparr>"

subsection \<open>Example cards, headers and files\<close>

text \<open>The two records of the long-string example and the cards \<^verbatim>\<open>Card.fromString\<close> makes of them.\<close>

definition ttype1_record :: string where
  "ttype1_record = ''TTYPE1  = '' @ [CHR 0x27] @ ''ABCDEFG&'' @ [CHR 0x27]"

definition continue_record :: string where
  "continue_record = ''CONTINUE  '' @ [CHR 0x27] @ ''  HIJK    '' @ [CHR 0x27] @ '' / extra''"

definition ttype1_card :: Card where
  "ttype1_card = \<lparr>image' = padEnd ttype1_record 80, keyword = ''TTYPE1'',
                   value' = StringValue ''ABCDEFG&'', comment = None\<rparr>"

definition continue_card :: Card where
  "continue_card = \<lparr>image' = padEnd continue_record 80, keyword = ''CONTINUE'',
                     value' = StringValue ''  HIJK'', comment = Some ''extra''\<rparr>"

definition long_string_header :: FITSHeader where
  "long_string_header = \<lparr>cards = [ttype1_card, continue_card]\<rparr>"

text \<open>The card \<^verbatim>\<open>Card.fromValue("OBJECT", "M31")\<close> makes on a freshly loaded module.\<close>

definition object_card :: Card where
  "object_card = \<lparr>image' = padEnd (''OBJECT  = '' @ [CHR 0x27] @ ''M31'' @ [CHR 0x27]) 80,
                   keyword = ''OBJECT'', value' = StringValue ''M31'', comment = None\<rparr>"

text \<open>The card \<^verbatim>\<open>Card.fromValue("SIMPLE", true)\<close> makes on a freshly loaded module.\<close>

definition simple_card :: Card where
  "simple_card = \<lparr>image' = padEnd ''SIMPLE  =                    T'' 80, keyword = ''SIMPLE'',
                   value' = BooleanValue True, comment = None\<rparr>"

text \<open>A commentary record.\<close>

definition comment_record :: string where
  "comment_record = padEnd ''COMMENT hello world'' 80"

text \<open>
  The smallest file \<^verbatim>\<open>FITS.fromBuffer\<close> accepts: the three mandatory cards with NAXIS = 0
  and no data.
\<close>

definition bitpix_card :: Card where
  "bitpix_card = \<lparr>image' = padEnd ''BITPIX  =                    8'' 80, keyword = ''BITPIX'',
                   value' = NumberValue (JSNumber ''8''), comment = None\<rparr>"

definition naxis_card :: Card where
  "naxis_card = \<lparr>image' = padEnd ''NAXIS   =                    0'' 80, keyword = ''NAXIS'',
                  value' = NumberValue (JSNumber ''0''), comment = None\<rparr>"

definition empty_file :: FITS where
  "empty_file =
     \<lparr>header = \<lparr>cards = [simple_card, bitpix_card, naxis_card]\<rparr>,
      data = \<lparr>BITPIX = BITPIX_8, NAXIS = 0, NAXISn = [], dataBuffer = []\<rparr>\<rparr>"

text \<open>The card \<^verbatim>\<open>Card.fromValue("END", null)\<close> makes on a freshly loaded module.\<close>

definition end_card :: Card where
  "end_card = \<lparr>image' = padEnd ''END'' 80, keyword = ''END'', value' = NullValue, comment = None\<rparr>"

text \<open>The patterns after one successful \<^verbatim>\<open>Card.fromValue("END", null)\<close> on a fresh module.\<close>

definition after_END :: regexes where
  "after_END = fresh\<lparr>keywordRegex_lastIndex := 3\<rparr>"

section \<open>Properties of FITSData\<close>

subsection \<open>fromArray\<close>

lemma length_be_bytes: "length (be_bytes n k) = n"
  by (induction n arbitrary: k) simp_all

lemma be_bytes_nonempty: "0 < n \<Longrightarrow> be_bytes n k \<noteq> []"
  using length_be_bytes [of n k] by auto

lemma view_set_at_end:
  "bs \<noteq> [] \<Longrightarrow> view_set view (length view) bs = Inl DataViewRangeError"
  by (simp add: view_set_def)

lemma fromArray_write_fails:
  "bitpix \<noteq> BITPIX_64 \<Longrightarrow> fromArray_write enc32 enc64 bitpix view p = Inl DataViewRangeError"
  by (cases bitpix) (simp_all add: fromArray_write_def view_set_at_end be_bytes_nonempty)

text \<open>
  Every write of \<^verbatim>\<open>fromArray\<close> is at offset \<^verbatim>\<open>dataView.byteLength\<close>, one past the last
  byte of the view, so the first data point already raises the DataView's RangeError:
  \<^verbatim>\<open>fromArray\<close> builds a matrix only from an empty array.
\<close>

lemma fromArray_nonempty_fails:
  assumes "points \<noteq> []" and "bitpix \<noteq> BITPIX_64"
    and "int (length points) = foldl (\<lambda>accum len. accum * len) 1 axes"
  shows "fromArray enc32 enc64 points bitpix axes = Inl DataViewRangeError"
proof -
  obtain p ps where "points = p # ps" using assms(1) by (cases points) auto
  then have "fromArray_loop enc32 enc64 bitpix points view = Inl DataViewRangeError" for view
    using assms(2) by (simp add: fromArray_write_fails)
  then show ?thesis using assms(3) by (simp add: fromArray_def)
qed

text \<open>
  C2. The claim: for every BITPIX in 8, 16, 32, -32, -64, every non-empty list of positive
  axis lengths and every value array of matching length, \<^verbatim>\<open>fromArray\<close> succeeds and
  \<^verbatim>\<open>getData\<close> on the result yields the values in order. The code at one point of value 1,
  BITPIX 8, axes [1]: it throws the DataView's RangeError, whatever the float encoders.
\<close>

theorem fromArray_single_point_throws:
  "fromArray enc32 enc64 [1] BITPIX_8 [1] = Inl DataViewRangeError"
  by (simp add: fromArray_nonempty_fails)

subsection \<open>getData and getPoint\<close>

text \<open>
  C1. The claim: every (coordinates, value) pair that \<^verbatim>\<open>getData\<close> yields, fed back into
  \<^verbatim>\<open>getPoint\<close>, returns that value. The code on the matrix of the two bytes 10 and 20
  (BITPIX 8, one axis of length 2, a buffer of 2 * 1 bytes): \<^verbatim>\<open>getData\<close> yields
  ([1], 10) and ([2], 20), \<^verbatim>\<open>getPoint(1)\<close> returns 20 and \<^verbatim>\<open>getPoint(2)\<close> throws.
\<close>

theorem getData_getPoint_disagree:
  "fst (getData two_bytes) = [([Num 1], IntPoint 10), ([Num 2], IntPoint 20)] \<and>
   getPoint two_bytes [Num 1] = Inr (IntPoint 20) \<and>
   getPoint two_bytes [Num 2] = Inl OutOfBounds"
  by code_simp

lemma readPoint_not_OutOfBounds: "readPoint d off \<noteq> Inl OutOfBounds"
  by (cases "BITPIX d"; cases off)
     (auto simp: readPoint_def view_get_def ToIndex_def map_sum_def split: sum.splits if_splits)

lemma view_get_NaN: "view_get view NaN n = view_get view (Num 0) n"
  by (simp add: view_get_def ToIndex_def)

lemma readPoint_NaN: "readPoint d NaN = readPoint d (Num 0)"
  by (cases "BITPIX d") (simp_all add: readPoint_def view_get_NaN)

lemma view_get_start: "n \<le> length view \<Longrightarrow> view_get view (Num 0) n = Inr (take n view)"
  by (simp add: view_get_def ToIndex_def)

lemma readPoint_first_word:
  "BITPIX d \<noteq> BITPIX_64 \<Longrightarrow> wordBytes (BITPIX d) \<le> length (dataBuffer d) \<Longrightarrow>
   \<exists>v. readPoint d (Num 0) = Inr v"
  by (cases "BITPIX d") (simp_all add: readPoint_def view_get_start)

lemma snd_getPoint_step:
  "snd (getPoint_step d coords i (mul, offset)) = js_add offset (js_mul (js_nth coords i) mul)"
  by (simp add: getPoint_step_def)

lemma js_zero_term: "js_mul (Num 0) mul = Num 0 \<or> js_mul (Num 0) mul = NaN"
  by (cases mul) simp_all

text \<open>
  With every coordinate 0 the offset stays 0, or becomes \<^verbatim>\<open>NaN\<close> when \<open>NAXISn\<close> has
  fewer than \<open>NAXIS - 1\<close> entries and \<open>mul\<close> has turned into \<^verbatim>\<open>NaN\<close>.
\<close>

lemma fold_zero_coords:
  "n \<le> m \<Longrightarrow> offset = Num 0 \<or> offset = NaN \<Longrightarrow>
   snd (fold (getPoint_step d (replicate m (Num 0))) [0..<n] (mul, offset)) = Num 0 \<or>
   snd (fold (getPoint_step d (replicate m (Num 0))) [0..<n] (mul, offset)) = NaN"
proof (induction n)
  case 0
  then show ?case by simp
next
  case (Suc n)
  then have ih: "snd (fold (getPoint_step d (replicate m (Num 0))) [0..<n] (mul, offset)) = Num 0 \<or>
   snd (fold (getPoint_step d (replicate m (Num 0))) [0..<n] (mul, offset)) = NaN"
    by simp
  obtain a b where ab: "fold (getPoint_step d (replicate m (Num 0))) [0..<n] (mul, offset) = (a, b)"
    by (cases "fold (getPoint_step d (replicate m (Num 0))) [0..<n] (mul, offset)")
  have "js_nth (replicate m (Num 0)) n = Num 0" using Suc.prems by (simp add: js_nth_def)
  then have "snd (fold (getPoint_step d (replicate m (Num 0))) [0..<Suc n] (mul, offset)) =
      js_add b (js_mul (Num 0) a)"
    by (simp add: ab snd_getPoint_step)
  moreover have "b = Num 0 \<or> b = NaN" using ih ab by simp
  ultimately show ?case using js_zero_term [of a] by auto
qed

lemma getPoint_offset_zero_coords:
  "getPoint_offset d (replicate (NAXIS d) (Num 0)) = Num 0 \<or>
   getPoint_offset d (replicate (NAXIS d) (Num 0)) = NaN"
  using fold_zero_coords [of "NAXIS d" "NAXIS d" "Num 0" d "Num 1"]
  by (auto simp: getPoint_offset_def)

text \<open>
  C10, as the code has it. Once the two arity checks have passed, \<^verbatim>\<open>getPoint\<close> raises
  its out-of-bounds error exactly when the byte offset aggregated from the coordinates is
  negative or at least the buffer length; no coordinate is compared with its own axis.
  And for every matrix with NAXIS at least 1, a BITPIX other than 64 and a buffer that
  holds at least one word, the call with every coordinate 0 passes the bounds check and
  returns the word at byte offset 0.
\<close>

theorem getPoint_bounds_check:
  "((getPoint d coords = Inl OutOfBounds) =
      (length coords = NAXIS d \<and> NAXIS d \<noteq> 0 \<and>
       (js_lt (getPoint_offset d coords) (Num 0) \<or>
        js_ge (getPoint_offset d coords) (Num (int (length (dataBuffer d))))))) \<and>
   (1 \<le> NAXIS d \<and> BITPIX d \<noteq> BITPIX_64 \<and> wordBytes (BITPIX d) \<le> length (dataBuffer d) \<longrightarrow>
      (\<exists>v. getPoint d (replicate (NAXIS d) (Num 0)) = Inr v \<and> readPoint d (Num 0) = Inr v))"
proof (intro conjI impI)
  show "(getPoint d coords = Inl OutOfBounds) =
      (length coords = NAXIS d \<and> NAXIS d \<noteq> 0 \<and>
       (js_lt (getPoint_offset d coords) (Num 0) \<or>
        js_ge (getPoint_offset d coords) (Num (int (length (dataBuffer d))))))"
    by (simp add: getPoint_def Let_def readPoint_not_OutOfBounds)
next
  assume h: "1 \<le> NAXIS d \<and> BITPIX d \<noteq> BITPIX_64 \<and> wordBytes (BITPIX d) \<le> length (dataBuffer d)"
  then obtain v where v: "readPoint d (Num 0) = Inr v"
    using readPoint_first_word by blast
  have "0 < wordBytes (BITPIX d)" by (cases "BITPIX d") simp_all
  then have len: "0 < length (dataBuffer d)" using h by linarith
  have "getPoint d (replicate (NAXIS d) (Num 0)) = Inr v"
    using getPoint_offset_zero_coords [of d] h len v
    by (auto simp: getPoint_def Let_def readPoint_NaN)
  then show "\<exists>v. getPoint d (replicate (NAXIS d) (Num 0)) = Inr v \<and> readPoint d (Num 0) = Inr v"
    using v by simp
qed

theorem getPoint_bounds_check_witness:
  "getPoint two_bytes [Num 2] = Inl OutOfBounds \<and>
   (\<exists>v. getPoint two_bytes (replicate (NAXIS two_bytes) (Num 0)) = Inr v \<and>
        readPoint two_bytes (Num 0) = Inr v)"
proof -
  have a: "length [Num 2] = NAXIS two_bytes \<and> NAXIS two_bytes \<noteq> 0 \<and>
       (js_lt (getPoint_offset two_bytes [Num 2]) (Num 0) \<or>
        js_ge (getPoint_offset two_bytes [Num 2]) (Num (int (length (dataBuffer two_bytes)))))"
    by code_simp
  have b: "1 \<le> NAXIS two_bytes \<and> BITPIX two_bytes \<noteq> BITPIX_64 \<and>
      wordBytes (BITPIX two_bytes) \<le> length (dataBuffer two_bytes)"
    by (simp add: two_bytes_def)
  show ?thesis
    using getPoint_bounds_check [of two_bytes "[Num 2]"] a b by blast
qed

text \<open>
  The claim as written, "for every data matrix with NAXIS >= 1", fails on a matrix of
  64-bit integers: the call with every coordinate 0 passes the bounds check and then
  \<^verbatim>\<open>#readPoint\<close> throws "64-bit integers are not supported".
\<close>

theorem getPoint_zero_int64_counterexample:
  "1 \<le> NAXIS one_int64 \<and>
   getPoint one_int64 (replicate (NAXIS one_int64) (Num 0)) = Inl UnsupportedBitDepth"
  by code_simp

section \<open>Properties of Card\<close>

subsection \<open>The image of an encoded card\<close>

lemma length_padEnd: "length (padEnd s n) = max (length s) n"
  by (simp add: padEnd_def)

lemma padEnd_fits: "length s \<le> n \<Longrightarrow> length (padEnd s n) = n"
  by (simp add: padEnd_def)

lemma length_slice_prefix: "0 \<le> b \<Longrightarrow> length (slice s 0 b) \<le> nat b"
  by (simp add: slice_def slice_index_def)

lemma image_new_Card: "image' (new_Card img k v c) = img"
  by (simp add: new_Card_def)

text \<open>
  Whatever the branch, what is padded is at most 80 characters long: the record fits as
  it is, or fits once the fixed format is dropped, or the comment is dropped, or the
  comment is cut to the room left.
\<close>

lemma fromValue_image_length:
  assumes "fromValue_image k v c hierarch = Inr made"
  shows "length (image' made) = CARD_LENGTH"
proof -
  define image1 where "image1 = (if hierarch then k @ '' '' else padEnd k KEYWORD_LENGTH) @
     (if k \<in> set SPECIAL_KEYWORDS then ''  '' else VALUE_INDICATOR)"
  define commentValue where
    "commentValue = (case c of Some text \<Rightarrow> trimEnd ('' / '' @ text) | None \<Rightarrow> [])"
  from assms show ?thesis
    unfolding fromValue_image_def Let_def image1_def [symmetric] commentValue_def [symmetric]
    apply (auto split: sum.splits if_splits option.splits simp: image_new_Card padEnd_fits)
    subgoal for iv iv2 t
      using length_slice_prefix [of "int CARD_LENGTH - int (length image1) - int (length iv2) - 6" t]
      by (simp add: padEnd_fits)
    done
qed

subsection \<open>What the patterns accept\<close>

text \<open>
  A pattern that begins with \<^verbatim>\<open>^\<close> matches at index 0 only, so a \<^verbatim>\<open>test\<close> that starts
  at a \<^verbatim>\<open>lastIndex\<close> other than 0 fails; when \<^verbatim>\<open>keywordRegex\<close> or \<^verbatim>\<open>asciiRegex\<close>
  accepts a string, every character of the string is in the class of the pattern.
\<close>

declare rmatch.simps [simp del]

lemma rmatch_Bol_later: "rmatch (Seq Bol r) (Suc i) s c k = None"
  by (simp add: rmatch.simps)

lemma regex_scan_Bol_later: "regex_scan (Seq Bol r) (Suc i) s = None"
  by (induction s arbitrary: i) (simp_all add: rmatch_Bol_later)

lemma regex_scan_Bol:
  "regex_scan (Seq Bol r) i s = (if i = 0 then rmatch r 0 s [] (\<lambda>e s' c. Some (e, c)) else None)"
proof (cases i)
  case 0
  then show ?thesis
    by (cases s) (simp_all add: rmatch.simps regex_scan_Bol_later split: option.splits)
next
  case (Suc j)
  then show ?thesis by (simp add: regex_scan_Bol_later)
qed

lemma regex_test_global_Bol:
  assumes "regex_test_global (Seq Bol r) li s = (True, e)"
  shows "\<exists>c. rmatch r 0 s [] (\<lambda>e s' c. Some (e, c)) = Some (e, c)"
proof -
  have "li = 0"
    using assms by (auto simp: regex_test_global_def regex_scan_Bol split: if_splits)
  then show ?thesis
    using assms by (auto simp: regex_test_global_def regex_scan_Bol split: if_splits option.splits)
qed

lemma rmatch_Star_class_Eol:
  "rmatch (Star (Cls p)) i s c (\<lambda>i' s' c'. rmatch Eol i' s' c' k) = Some m \<Longrightarrow> list_all p s"
proof (induction s arbitrary: i)
  case Nil
  then show ?case by simp
next
  case (Cons x xs)
  from Cons.prems have "p x \<and>
      rmatch (Star (Cls p)) (Suc i) xs c (\<lambda>i' s' c'. rmatch Eol i' s' c' k) = Some m"
    by (subst (asm) rmatch.simps) (auto simp: rmatch.simps(1,4) split: option.splits if_splits)
  then show ?case using Cons.IH by auto
qed

lemma rmatch_upto_class_Eol:
  "rmatch (rep_upto n (Cls p)) i s c (\<lambda>i' s' c'. rmatch Eol i' s' c' k) = Some m \<Longrightarrow>
   list_all p s \<and> length s \<le> n"
proof (induction n arbitrary: i s)
  case 0
  then show ?case by (simp add: rmatch.simps split: if_splits)
next
  case (Suc n)
  show ?case
  proof (cases s)
    case Nil
    then show ?thesis by simp
  next
    case (Cons x xs)
    from Suc.prems have "p x \<and>
        rmatch (rep_upto n (Cls p)) (Suc i) xs c (\<lambda>i' s' c'. rmatch Eol i' s' c' k) = Some m"
      by (auto simp: Cons Opt_def rmatch.simps(1,2,4,5,6) split: option.splits if_splits)
    then show ?thesis using Suc.IH Cons by auto
  qed
qed

lemma keywordRegex_test:
  "regex_test_global keywordRegex li s = (True, e) \<Longrightarrow> list_all keyword_char s \<and> length s \<le> 8"
proof -
  assume t: "regex_test_global keywordRegex li s = (True, e)"
  have shape: "keywordRegex = Seq Bol (Seq (rep_upto 8 (Cls keyword_char)) Eol)"
    by (simp add: keywordRegex_def)
  obtain c where "rmatch (Seq (rep_upto 8 (Cls keyword_char)) Eol) 0 s [] (\<lambda>e s' c. Some (e, c)) = Some (e, c)"
    using regex_test_global_Bol t unfolding shape by blast
  then show ?thesis
    using rmatch_upto_class_Eol [of 8 keyword_char 0 s "[]"]
    by (simp add: rmatch.simps(5))
qed

lemma asciiRegex_test:
  "regex_test_global asciiRegex li s = (True, e) \<Longrightarrow> list_all printable s"
proof -
  assume t: "regex_test_global asciiRegex li s = (True, e)"
  have shape: "asciiRegex = Seq Bol (Seq (Star (Cls printable)) Eol)"
    by (simp add: asciiRegex_def)
  obtain c where "rmatch (Seq (Star (Cls printable)) Eol) 0 s [] (\<lambda>e s' c. Some (e, c)) = Some (e, c)"
    using regex_test_global_Bol t unfolding shape by blast
  then show ?thesis
    using rmatch_Star_class_Eol [of printable 0 s "[]"]
    by (simp add: rmatch.simps(5))
qed


subsection \<open>The bytes of an encoded card\<close>

lemma ascii_space: "ascii (CHR '' '')"
  by (simp add: ascii_def code_def)

lemma keyword_char_ascii: "keyword_char c \<Longrightarrow> ascii c"
  by (auto simp: keyword_char_def ascii_def in_range_def code_def)

lemma printable_ascii: "printable c \<Longrightarrow> ascii c"
  by (simp add: printable_def ascii_def in_range_def)

lemma list_all_mono: "list_all P s \<Longrightarrow> (\<And>c. P c \<Longrightarrow> Q c) \<Longrightarrow> list_all Q s"
  by (simp add: list_all_iff)

lemma ascii_padEnd: "list_all ascii s \<Longrightarrow> list_all ascii (padEnd s n)"
  by (auto simp: padEnd_def list_all_iff ascii_space)

lemma ascii_padStart: "list_all ascii s \<Longrightarrow> list_all ascii (padStart s n)"
  by (auto simp: padStart_def list_all_iff ascii_space)

lemma ascii_trimEnd: "list_all ascii s \<Longrightarrow> list_all ascii (trimEnd s)"
  using set_dropWhileD [of _ js_whitespace "rev s"]
  by (auto simp: trimEnd_def list_all_iff)

lemma ascii_slice: "list_all ascii s \<Longrightarrow> list_all ascii (slice s a b)"
  by (auto simp: slice_def list_all_iff dest!: in_set_takeD in_set_dropD)

lemma ascii_replaceAll:
  "list_all ascii s \<Longrightarrow> list_all ascii r \<Longrightarrow> list_all ascii (replaceAll s c r)"
  by (auto simp: replaceAll_def list_all_iff)

lemma ascii_replace_first:
  "list_all ascii s \<Longrightarrow> list_all ascii r \<Longrightarrow> list_all ascii (replace_first s c r)"
  by (induction s) auto

lemma ascii_split:
  "list_all ascii s \<Longrightarrow> list_all (list_all ascii) (split s c)"
  by (induction s) (auto split: list.splits)

lemma ascii_realToString:
  assumes "realToString x = Inr r" and "list_all ascii (toString x)"
  shows "list_all ascii r"
proof -
  define rendered where "rendered = replace_first (toString x) (CHR ''e'') ''E''"
  have out: "list_all ascii rendered"
    using assms(2) by (simp add: rendered_def ascii_replace_first ascii_def code_def)
  have pieces: "list_all (list_all ascii) (split rendered (CHR ''E''))"
    using out by (rule ascii_split)
  show ?thesis
    using assms(1) out pieces
    unfolding realToString_def Let_def rendered_def [symmetric]
    by (auto split: if_splits list.splits simp: ascii_slice ascii_def code_def)
qed

lemma ascii_fixed_format:
  "fixed_format raw f = Inr r \<Longrightarrow> (\<And>x. raw = Inr x \<Longrightarrow> list_all ascii x) \<Longrightarrow> list_all ascii r"
  by (auto simp: fixed_format_def ascii_padStart split: sum.splits option.splits)

lemma ascii_valueToString:
  assumes "valueToString v f = Inr r" and "ascii_numbers v"
    and "\<And>s. v = StringValue s \<Longrightarrow> list_all ascii s"
  shows "list_all ascii r"
proof (cases v)
  case (StringValue s)
  have q: "ascii (CHR 0x27)" by (simp add: ascii_def code_def)
  have "list_all ascii ([CHR 0x27] @ replaceAll s (CHR 0x27) [CHR 0x27, CHR 0x27] @ [CHR 0x27])"
    using assms(3) [OF StringValue] q by (simp add: ascii_replaceAll)
  then show ?thesis
    using assms(1,3) StringValue q
    by (auto simp: valueToString_def ascii_padEnd split: option.splits)
next
  case (NumberValue x)
  then show ?thesis
    using assms(1,2) ascii_realToString [of x]
    by (auto simp: valueToString_def intro!: ascii_fixed_format [of "realToString x" f r])
next
  case (ComplexValue re im)
  have "list_all ascii x" if "(case realToString re of
               Inl e \<Rightarrow> Inl e
             | Inr r \<Rightarrow> (case realToString im of
                           Inl e \<Rightarrow> Inl e
                         | Inr i \<Rightarrow> Inr (''('' @ r @ '','' @ i @ '')''))) = Inr x" for x
    using that assms(2) ComplexValue ascii_realToString [of re] ascii_realToString [of im]
    by (auto split: sum.splits simp: ascii_def code_def)
  then show ?thesis
    using assms(1) ComplexValue
    by (auto simp: valueToString_def elim!: ascii_fixed_format)
next
  case (BooleanValue b)
  then show ?thesis
    using assms(1)
    by (auto simp: valueToString_def ascii_def code_def elim!: ascii_fixed_format)
next
  case NullValue
  then show ?thesis
    using assms(1)
    by (auto simp: valueToString_def elim!: ascii_fixed_format)
qed


lemma ascii_fromValue_image:
  assumes "fromValue_image k v c hierarch = Inr made"
    and "list_all ascii k" and "ascii_numbers v"
    and "\<And>s. v = StringValue s \<Longrightarrow> list_all ascii s"
    and "\<And>t. c = Some t \<Longrightarrow> list_all ascii t"
  shows "list_all ascii (image' made)"
proof -
  define image1 where "image1 = (if hierarch then k @ '' '' else padEnd k KEYWORD_LENGTH) @
     (if k \<in> set SPECIAL_KEYWORDS then ''  '' else VALUE_INDICATOR)"
  define commentValue where
    "commentValue = (case c of Some text \<Rightarrow> trimEnd ('' / '' @ text) | None \<Rightarrow> [])"
  have i1: "list_all ascii image1"
    using assms(2) by (simp add: image1_def ascii_padEnd VALUE_INDICATOR_def ascii_def code_def)
  have cv: "list_all ascii commentValue"
  proof (cases c)
    case None
    then show ?thesis by (simp add: commentValue_def)
  next
    case (Some t)
    have "list_all ascii ('' / '' @ t)" using assms(5) [OF Some] by (simp add: ascii_def code_def)
    then show ?thesis using Some by (simp add: commentValue_def ascii_trimEnd)
  qed
  have iv: "valueToString v f = Inr r \<Longrightarrow> list_all ascii r" for f r
    using ascii_valueToString assms(3,4) by blast
  have cut: "list_all ascii (slice t 0 m)" if "c = Some t" for t m
    using assms(5) [OF that] by (simp add: ascii_slice)
  have marks: "ascii (CHR '' '')" "ascii (CHR ''/'')" "ascii (CHR ''.'')"
    by (simp_all add: ascii_def code_def)
  have pad: "list_all ascii s \<Longrightarrow> made = new_Card (padEnd s CARD_LENGTH) k' v' c' \<Longrightarrow>
      list_all ascii (image' made)" for s k' v' c'
    by (simp add: image_new_Card ascii_padEnd)
  from assms(1) show ?thesis
    unfolding fromValue_image_def Let_def image1_def [symmetric] commentValue_def [symmetric]
    by (auto split: sum.splits if_splits option.splits
             simp: image_new_Card i1 cv ascii_padEnd cut marks dest!: iv)
qed

lemma length_TextEncoder_encode_ascii:
  "list_all ascii s \<Longrightarrow> length (TextEncoder_encode s) = length s"
  by (induction s) (simp_all add: TextEncoder_encode_def utf8_char_def ascii_def)

lemma fromValue_checked:
  assumes "fst (fromValue k0 v c st) = Inr made"
  shows "\<exists>hierarch. fromValue_image (trimEnd k0) v c hierarch = Inr made \<and>
     list_all keyword_char (trimEnd k0) \<and>
     (\<forall>s. v = StringValue s \<longrightarrow> list_all printable s) \<and>
     (\<forall>t. c = Some t \<longrightarrow> list_all printable t)"
  using assms unfolding fromValue_def Let_def
  by (auto split: prod.splits if_splits FITSCardValue.splits option.splits
           simp: test_keywordRegex_def test_asciiRegex_def
           dest: keywordRegex_test asciiRegex_test)

text \<open>
  C7. For every keyword, value, comment and state of the patterns for which
  \<^verbatim>\<open>Card.fromValue\<close> returns a card rather than an error, the image of the card is
  exactly 80 characters long, never longer and never shorter; and it is exactly 80 bytes
  long as \<^verbatim>\<open>FITSHeader.toBuffer\<close> encodes it, the renderings of the numbers of the value
  being ASCII, as every rendering of a JavaScript number is.
\<close>

theorem fromValue_image_80:
  "fst (fromValue k v c st) = Inr made \<Longrightarrow>
   length (image' made) = 80 \<and> (ascii_numbers v \<longrightarrow> length (record_bytes made) = 80)"
proof -
  assume ok: "fst (fromValue k v c st) = Inr made"
  obtain hierarch where img: "fromValue_image (trimEnd k) v c hierarch = Inr made"
    and kw: "list_all keyword_char (trimEnd k)"
    and str: "\<forall>s. v = StringValue s \<longrightarrow> list_all printable s"
    and com: "\<forall>t. c = Some t \<longrightarrow> list_all printable t"
    using fromValue_checked [OF ok] by blast
  have len: "length (image' made) = 80"
    using fromValue_image_length [OF img] by (simp add: CARD_LENGTH_def)
  have "length (record_bytes made) = 80" if num: "ascii_numbers v"
  proof -
    have "list_all ascii (image' made)"
    proof (rule ascii_fromValue_image [OF img _ num])
      show "list_all ascii (trimEnd k)"
        using kw keyword_char_ascii by (rule list_all_mono)
      show "list_all ascii s" if "v = StringValue s" for s
        using str that printable_ascii list_all_mono by blast
      show "list_all ascii t" if "c = Some t" for t
        using com that printable_ascii list_all_mono by blast
    qed
    then show ?thesis
      using len by (simp add: record_bytes_def length_TextEncoder_encode_ascii)
  qed
  then show ?thesis using len by simp
qed

theorem fromValue_image_80_witness:
  "fst (fromValue ''BITPIX'' (NumberValue (JSNumber ''8'')) None fresh) = Inr bitpix_card \<and>
   ascii_numbers (NumberValue (JSNumber ''8'')) \<and>
   length (image' bitpix_card) = 80 \<and> length (record_bytes bitpix_card) = 80"
proof -
  have made: "fst (fromValue ''BITPIX'' (NumberValue (JSNumber ''8'')) None fresh) = Inr bitpix_card"
    by code_simp
  have num: "ascii_numbers (NumberValue (JSNumber ''8''))"
    by code_simp
  show ?thesis using made num fromValue_image_80 [OF made] by simp
qed

subsection \<open>The state of the patterns\<close>

text \<open>
  C5. The claim: every call of \<^verbatim>\<open>Card.fromValue\<close> with the same valid arguments yields
  the same result, whatever calls came before. The code: on a freshly loaded module
  \<^verbatim>\<open>Card.fromValue("SIMPLE", true)\<close> returns a card and leaves \<^verbatim>\<open>keywordRegex.lastIndex\<close>
  at 6; the same call made next throws "Invalid keyword" (and resets \<^verbatim>\<open>lastIndex\<close>).
\<close>

theorem fromValue_depends_on_earlier_calls:
  "fromValue ''SIMPLE'' (BooleanValue True) None fresh =
     (Inr simple_card, fresh\<lparr>keywordRegex_lastIndex := 6\<rparr>) \<and>
   fromValue ''SIMPLE'' (BooleanValue True) None (fresh\<lparr>keywordRegex_lastIndex := 6\<rparr>) =
     (Inl InvalidKeyword, fresh)"
  by code_simp

subsection \<open>Commentary records\<close>

text \<open>
  C6, as the code has it. For every 80-character record whose right-trimmed first 8
  characters are one of the commentary keywords \<^verbatim>\<open>""\<close>, \<^verbatim>\<open>HISTORY\<close> and \<^verbatim>\<open>COMMENT\<close>,
  \<^verbatim>\<open>Card.fromString\<close> returns a card whose value is the trimmed remainder of the record
  (after an optional leading \<^verbatim>\<open>"= "\<close>), a string, and whose comment is \<^verbatim>\<open>null\<close>:
  the text of a commentary card is its value.
\<close>

theorem fromString_commentary:
  "length record = 80 \<and> trimEnd (take 8 record) \<in> {[], ''HISTORY'', ''COMMENT''} \<longrightarrow>
     fromString parseFloat record pad =
       Inr \<lparr>image' = record, keyword = trimEnd (take 8 record),
            value' = StringValue (trim (if take 2 (drop 8 record) = ''= ''
                                        then drop 10 record else drop 8 record)),
            comment = None\<rparr>"
  by (auto simp: fromString_def Let_def slice_def slice_index_def slice_from_def startsWith_def
        padEnd_def COMMENTARY_KEYWORDS_def CARD_LENGTH_def KEYWORD_LENGTH_def
        VALUE_INDICATOR_def new_Card_def numeral_2_eq_2)

theorem fromString_commentary_witness:
  "length comment_record = 80 \<and>
   trimEnd (take 8 comment_record) \<in> {[], ''HISTORY'', ''COMMENT''} \<and>
   (\<forall>parseFloat. fromString parseFloat comment_record True =
      Inr \<lparr>image' = comment_record, keyword = ''COMMENT'',
           value' = StringValue ''hello world'', comment = None\<rparr>)"
proof -
  have len: "length comment_record = 80"
    by code_simp
  have kw: "trimEnd (take 8 comment_record) = ''COMMENT''"
    by code_simp
  have rest: "trim (if take 2 (drop 8 comment_record) = ''= ''
                    then drop 10 comment_record else drop 8 comment_record) = ''hello world''"
    by code_simp
  show ?thesis
    using fromString_commentary [of comment_record _ True] len kw rest by simp
qed

text \<open>
  The claim as written, value undefined and comment the trimmed remainder, fails on the
  record \<^verbatim>\<open>COMMENT hello world\<close>, whatever \<^verbatim>\<open>Number.parseFloat\<close> does.
\<close>

theorem fromString_commentary_counterexample:
  "\<forall>parseFloat. \<exists>made. fromString parseFloat comment_record True = Inr made \<and>
     value' made = StringValue ''hello world'' \<and> value' made \<noteq> NullValue \<and>
     comment made = None \<and> comment made \<noteq> Some ''hello world''"
proof
  fix parseFloat
  have "fromString parseFloat comment_record True =
      Inr \<lparr>image' = comment_record, keyword = ''COMMENT'',
           value' = StringValue ''hello world'', comment = None\<rparr>"
    by code_simp
  then show "\<exists>made. fromString parseFloat comment_record True = Inr made \<and>
     value' made = StringValue ''hello world'' \<and> value' made \<noteq> NullValue \<and>
     comment made = None \<and> comment made \<noteq> Some ''hello world''"
    by simp
qed


subsection \<open>The rendering of reals\<close>

text \<open>
  C8. The claim: for every finite double \<^verbatim>\<open>realToString\<close> returns a string of at most 20
  characters, also when the natural rendering is longer and has no exponent. The code on
  \<^verbatim>\<open>Number.MAX_VALUE\<close>, rendered 1.7976931348623157e+308: the mantissa is cut to 20 - 4
  characters and the result, with the E, has 21. On 1e20, rendered as a 1 and twenty
  zeros, 21 characters without exponent: \<^verbatim>\<open>exponent\<close> is \<^verbatim>\<open>undefined\<close> and the call throws.
\<close>

theorem realToString_over_20:
  "realToString (JSNumber ''1.7976931348623157e+308'') = Inr ''1.79769313486231E+308'' \<and>
   length ''1.79769313486231E+308'' = 21 \<and>
   realToString (JSNumber ''100000000000000000000'') = Inl PropertyOfUndefined"
  by code_simp

section \<open>Properties of FITSHeader\<close>

subsection \<open>CONTINUE chains\<close>

declare getValues_chain.simps [simp del]

lemma slice_drop_last: "slice s 0 (- 1) = butlast s"
  by (simp add: slice_def slice_index_def butlast_conv_take nat_diff_distrib')

lemma endsWith_amp: "endsWith t ''&'' = (t \<noteq> [] \<and> last t = CHR ''&'')"
proof (cases t rule: rev_cases)
  case Nil
  then show ?thesis by (simp add: endsWith_def)
next
  case (snoc ys y)
  then show ?thesis by (simp add: endsWith_def)
qed

lemma endsWith_amp_append: "endsWith t ''&'' \<Longrightarrow> endsWith (pre @ t) ''&''"
  by (simp add: endsWith_amp)

text \<open>
  The loop of \<^verbatim>\<open>getValues\<close> on a chain: \<open>pre @ t\<close> is the string built so far, \<open>t\<close> the
  piece appended last, \<open>ts\<close> the strings of the CONTINUE cards that follow.
\<close>

lemma getValues_chain_pieces:
  assumes "\<forall>j<length ts. i + 1 + j < length cs \<and> keyword (cs ! (i + 1 + j)) = ''CONTINUE'' \<and>
              value' (cs ! (i + 1 + j)) = StringValue (ts ! j)"
    and "\<forall>p\<in>set (butlast (t # ts)). endsWith p ''&''"
    and "\<not> (endsWith (pre @ reassembled t ts) ''&'' \<and> continues cs (i + 1 + length ts))"
  shows "getValues_chain cs (pre @ t) i = pre @ reassembled t ts"
  using assms
proof (induction ts arbitrary: pre t i)
  case Nil
  then show ?case by (subst getValues_chain.simps) auto
next
  case (Cons u us)
  have t: "endsWith t ''&''" using Cons.prems(2) by simp
  then have tne: "t \<noteq> []" by (simp add: endsWith_amp)
  have first: "i + 1 < length cs \<and> keyword (cs ! (i + 1)) = ''CONTINUE'' \<and>
      value' (cs ! (i + 1)) = StringValue u"
    using Cons.prems(1) [rule_format, of 0] by simp
  then have cont: "continues cs (i + 1)" by (simp add: continues_def at_def)
  have step: "getValues_chain cs (pre @ t) i = getValues_chain cs ((pre @ butlast t) @ u) (i + 1)"
    using t cont first tne
    by (subst getValues_chain.simps) (simp add: endsWith_amp_append slice_drop_last butlast_append)
  have rest: "\<forall>j<length us. (i + 1) + 1 + j < length cs \<and>
      keyword (cs ! ((i + 1) + 1 + j)) = ''CONTINUE'' \<and>
      value' (cs ! ((i + 1) + 1 + j)) = StringValue (us ! j)"
  proof (intro allI impI)
    fix j assume "j < length us"
    then show "(i + 1) + 1 + j < length cs \<and>
      keyword (cs ! ((i + 1) + 1 + j)) = ''CONTINUE'' \<and>
      value' (cs ! ((i + 1) + 1 + j)) = StringValue (us ! j)"
      using Cons.prems(1) [rule_format, of "Suc j"] by simp
  qed
  have pieces: "\<forall>p\<in>set (butlast (u # us)). endsWith p ''&''"
    using Cons.prems(2) by (auto split: if_splits)
  have stop: "\<not> (endsWith ((pre @ butlast t) @ reassembled u us) ''&'' \<and>
      continues cs ((i + 1) + 1 + length us))"
    using Cons.prems(3) by simp
  show ?case
    using Cons.IH [OF rest pieces stop] step by simp
qed

text \<open>When \<^verbatim>\<open>getValues\<close> returns, it returns one value for each matching card, in order.\<close>

lemma getValues_loop_values:
  "getValues_loop cs found st = (Inr vs, st') \<Longrightarrow>
   vs = map (\<lambda>(c, i). case value' c of
                StringValue s \<Rightarrow> StringValue (getValues_chain cs s i)
              | v \<Rightarrow> v) found"
proof (induction found arbitrary: st vs st')
  case Nil
  then show ?case by simp
next
  case (Cons a found)
  obtain c i where a: "a = (c, i)" by (cases a)
  show ?case using Cons.prems Cons.IH
    by (auto simp: a split: prod.splits option.splits sum.splits)
qed

text \<open>
  C4, as the code has it. Take a header in which the \<open>n\<close>-th card of a keyword, at
  index \<open>i\<close>, holds a string \<open>s\<close>, and is followed at once by one or more CONTINUE cards
  holding the strings \<open>ts\<close>, every piece but the last ending with \<^verbatim>\<open>&\<close>, the chain ending
  there (what is reassembled does not end with \<^verbatim>\<open>&\<close>, or no CONTINUE card follows).
  Whenever \<^verbatim>\<open>getValues\<close> on the keyword returns values (no type check throws), the
  \<open>n\<close>-th is the full reassembled string, the \<^verbatim>\<open>&\<close> of each piece removed and nothing
  else changed; for \<open>n = 0\<close> it is what \<^verbatim>\<open>getValue\<close> returns. The string of a CONTINUE
  card is appended as it was parsed, its leading spaces kept: for the cards
  \<^verbatim>\<open>TTYPE1  = 'ABCDEFG&'\<close> and \<^verbatim>\<open>CONTINUE  '  HIJK    ' / extra\<close>, on a freshly loaded module,
  \<^verbatim>\<open>getValue("TTYPE1")\<close> returns ABCDEFG, two spaces, HIJK.
\<close>

theorem getValues_reassembles:
  "(fst (getValues h kw st) = Inr vs \<and>
    n < length (matching (cards h) (toUpperCase (trim kw))) \<and>
    matching (cards h) (toUpperCase (trim kw)) ! n = (c, i) \<and>
    value' c = StringValue s \<and> ts \<noteq> [] \<and>
    (\<forall>j<length ts. i + 1 + j < length (cards h) \<and>
        keyword (cards h ! (i + 1 + j)) = ''CONTINUE'' \<and>
        value' (cards h ! (i + 1 + j)) = StringValue (ts ! j)) \<and>
    (\<forall>p\<in>set (butlast (s # ts)). endsWith p ''&'') \<and>
    \<not> (endsWith (reassembled s ts) ''&'' \<and> continues (cards h) (i + 1 + length ts))
    \<longrightarrow>
      vs ! n = StringValue (reassembled s ts) \<and>
      (n = 0 \<longrightarrow> fst (getValue h kw st) = Inr (Some (StringValue (reassembled s ts))))) \<and>
   fst (getValue long_string_header ''TTYPE1'' fresh) = Inr (Some (StringValue ''ABCDEFG  HIJK''))"
proof (intro conjI impI)
  assume h: "fst (getValues h kw st) = Inr vs \<and>
    n < length (matching (cards h) (toUpperCase (trim kw))) \<and>
    matching (cards h) (toUpperCase (trim kw)) ! n = (c, i) \<and>
    value' c = StringValue s \<and> ts \<noteq> [] \<and>
    (\<forall>j<length ts. i + 1 + j < length (cards h) \<and>
        keyword (cards h ! (i + 1 + j)) = ''CONTINUE'' \<and>
        value' (cards h ! (i + 1 + j)) = StringValue (ts ! j)) \<and>
    (\<forall>p\<in>set (butlast (s # ts)). endsWith p ''&'') \<and>
    \<not> (endsWith (reassembled s ts) ''&'' \<and> continues (cards h) (i + 1 + length ts))"
  define found where "found = matching (cards h) (toUpperCase (trim kw))"
  obtain st' where loop: "getValues_loop (cards h) found st = (Inr vs, st')"
    using h unfolding getValues_def Let_def found_def
    by (cases "getValues_loop (cards h) (matching (cards h) (toUpperCase (trim kw))) st")
       (auto split: if_splits)
  have chain: "getValues_chain (cards h) s i = reassembled s ts"
    using getValues_chain_pieces [of ts i "cards h" s "[]"] h by simp
  have "vs ! n = (case value' c of
                    StringValue s \<Rightarrow> StringValue (getValues_chain (cards h) s i)
                  | v \<Rightarrow> v)"
    using getValues_loop_values [OF loop] h by (simp add: found_def)
  then show vsn: "vs ! n = StringValue (reassembled s ts)"
    using h chain by simp
  have len: "length vs = length found"
    using getValues_loop_values [OF loop] by simp
  show "fst (getValue h kw st) = Inr (Some (StringValue (reassembled s ts)))" if "n = 0"
  proof -
    have "at vs 0 = Some (StringValue (reassembled s ts))"
      using vsn len h that by (simp add: at_def found_def)
    then show ?thesis
      using h by (cases "getValues h kw st") (auto simp: getValue_def)
  qed
next
  show "fst (getValue long_string_header ''TTYPE1'' fresh) = Inr (Some (StringValue ''ABCDEFG  HIJK''))"
    by code_simp
qed

theorem getValues_reassembles_witness:
  "fst (getValues long_string_header ''TTYPE1'' fresh) = Inr [StringValue ''ABCDEFG  HIJK''] \<and>
   matching (cards long_string_header) (toUpperCase (trim ''TTYPE1'')) ! 0 = (ttype1_card, 0) \<and>
   keyword (cards long_string_header ! 1) = ''CONTINUE'' \<and>
   value' (cards long_string_header ! 1) = StringValue ''  HIJK'' \<and>
   reassembled ''ABCDEFG&'' [''  HIJK''] = ''ABCDEFG  HIJK'' \<and>
   fst (getValue long_string_header ''TTYPE1'' fresh) =
     Inr (Some (StringValue (reassembled ''ABCDEFG&'' [''  HIJK''])))"
proof -
  have ret: "fst (getValues long_string_header ''TTYPE1'' fresh) = Inr [StringValue ''ABCDEFG  HIJK'']"
    by code_simp
  have occ: "(0::nat) < length (matching (cards long_string_header) (toUpperCase (trim ''TTYPE1'')))"
    by code_simp
  have nth: "matching (cards long_string_header) (toUpperCase (trim ''TTYPE1'')) ! 0 = (ttype1_card, 0)"
    by code_simp
  have str: "value' ttype1_card = StringValue ''ABCDEFG&''"
    by (simp add: ttype1_card_def)
  have conts: "\<forall>j<length [''  HIJK'']. 0 + 1 + j < length (cards long_string_header) \<and>
        keyword (cards long_string_header ! (0 + 1 + j)) = ''CONTINUE'' \<and>
        value' (cards long_string_header ! (0 + 1 + j)) = StringValue ([''  HIJK''] ! j)"
    by (simp add: long_string_header_def continue_card_def)
  have amp: "\<forall>p\<in>set (butlast [''ABCDEFG&'', ''  HIJK'']). endsWith p ''&''"
    by (simp add: endsWith_def)
  have stop: "\<not> (endsWith (reassembled ''ABCDEFG&'' [''  HIJK'']) ''&'' \<and>
      continues (cards long_string_header) (0 + 1 + length [''  HIJK'']))"
    by (simp add: endsWith_def)
  have joined: "reassembled ''ABCDEFG&'' [''  HIJK''] = ''ABCDEFG  HIJK''"
    by simp
  have "fst (getValue long_string_header ''TTYPE1'' fresh) =
     Inr (Some (StringValue (reassembled ''ABCDEFG&'' [''  HIJK''])))"
    using getValues_reassembles [of long_string_header "''TTYPE1''" fresh
        "[StringValue ''ABCDEFG  HIJK'']" 0 ttype1_card 0 "''ABCDEFG&''" "[''  HIJK'']"]
      ret occ nth str conts amp stop
    by blast
  then show ?thesis
    using ret nth conts joined by simp
qed

text \<open>
  The claim as written gives ABCDEFGHIJK for the two cards. They are the cards
  \<^verbatim>\<open>Card.fromString\<close> makes of the two records, whatever \<^verbatim>\<open>Number.parseFloat\<close> does; the
  pattern of a quoted string drops the spaces before the closing quote only, so the string
  of the CONTINUE card begins with two spaces, and \<^verbatim>\<open>getValue\<close> keeps them.
\<close>

theorem getValue_long_string_counterexample:
  "(\<forall>parseFloat. fromString parseFloat ttype1_record True = Inr ttype1_card) \<and>
   (\<forall>parseFloat. fromString parseFloat continue_record True = Inr continue_card) \<and>
   cards long_string_header = [ttype1_card, continue_card] \<and>
   fst (getValue long_string_header ''TTYPE1'' fresh) = Inr (Some (StringValue ''ABCDEFG  HIJK'')) \<and>
   fst (getValue long_string_header ''TTYPE1'' fresh) \<noteq> Inr (Some (StringValue ''ABCDEFGHIJK''))"
proof -
  have a: "fromString parseFloat ttype1_record True = Inr ttype1_card" for parseFloat
    by code_simp
  have b: "fromString parseFloat continue_record True = Inr continue_card" for parseFloat
    by code_simp
  have c: "fst (getValue long_string_header ''TTYPE1'' fresh) = Inr (Some (StringValue ''ABCDEFG  HIJK''))"
    by code_simp
  show ?thesis using a b c by (simp add: long_string_header_def)
qed

subsection \<open>setValue\<close>

lemma setValue_KeywordNotMutable:
  "k = ''SIMPLE'' \<or> k = ''CONTINUE'' \<or> k = ''BITPIX'' \<or> startsWith k ''NAXIS'' \<Longrightarrow>
   setValue h k v index st = (Inl KeywordNotMutable, h, st)"
  by (simp add: setValue_def)

text \<open>
  C3, as the code has it. \<^verbatim>\<open>setValue\<close> returns a number, not a header, and changes the
  receiver in place: for every accepted call with a defined value whose index is the
  number of cards that match the keyword (so for a keyword not yet present and index 0),
  the receiver's card sequence after the call is its sequence before the call followed by
  the card \<^verbatim>\<open>Card.fromValue(keyword, value)\<close> has made, and the number returned is the
  index of that card.
\<close>

theorem setValue_appends_in_place:
  "setValue h k (Some x) index st = (Inr n, h', st') \<and>
   index = int (length (matching (cards h) k)) \<longrightarrow>
     (\<exists>made. fromValue k x None st = (Inr made, st') \<and>
        cards h' = cards h @ [made] \<and> n = int (length (cards h)))"
  unfolding setValue_def Let_def
  by (auto split: if_splits prod.splits sum.splits)

theorem setValue_appends_in_place_witness:
  "setValue long_string_header ''OBJECT'' (Some (StringValue ''M31'')) 0 fresh =
     (Inr 2, \<lparr>cards = [ttype1_card, continue_card, object_card]\<rparr>,
      fresh\<lparr>keywordRegex_lastIndex := 6, asciiRegex_lastIndex := 3\<rparr>) \<and>
   (0::int) = int (length (matching (cards long_string_header) ''OBJECT'')) \<and>
   (\<exists>made. fromValue ''OBJECT'' (StringValue ''M31'') None fresh =
       (Inr made, fresh\<lparr>keywordRegex_lastIndex := 6, asciiRegex_lastIndex := 3\<rparr>) \<and>
       cards \<lparr>cards = [ttype1_card, continue_card, object_card]\<rparr> =
         cards long_string_header @ [made] \<and>
       (2::int) = int (length (cards long_string_header)))"
proof -
  have call: "setValue long_string_header ''OBJECT'' (Some (StringValue ''M31'')) 0 fresh =
     (Inr 2, \<lparr>cards = [ttype1_card, continue_card, object_card]\<rparr>,
      fresh\<lparr>keywordRegex_lastIndex := 6, asciiRegex_lastIndex := 3\<rparr>)"
    by code_simp
  have absent: "(0::int) = int (length (matching (cards long_string_header) ''OBJECT''))"
    by code_simp
  show ?thesis
    using setValue_appends_in_place [of long_string_header "''OBJECT''" "StringValue ''M31''" 0
        fresh 2 "\<lparr>cards = [ttype1_card, continue_card, object_card]\<rparr>"
        "fresh\<lparr>keywordRegex_lastIndex := 6, asciiRegex_lastIndex := 3\<rparr>"]
      call absent
    by blast
qed

text \<open>
  The claim as written, copy-on-write, fails on the header of the two cards above:
  \<^verbatim>\<open>setValue("OBJECT", "M31", 0)\<close> is accepted, returns 2, and the receiver then holds
  three cards.
\<close>

theorem setValue_changes_receiver_counterexample:
  "fst (setValue long_string_header ''OBJECT'' (Some (StringValue ''M31'')) 0 fresh) = Inr 2 \<and>
   cards (fst (snd (setValue long_string_header ''OBJECT'' (Some (StringValue ''M31'')) 0 fresh))) =
     [ttype1_card, continue_card, object_card] \<and>
   cards (fst (snd (setValue long_string_header ''OBJECT'' (Some (StringValue ''M31'')) 0 fresh))) \<noteq>
     cards long_string_header"
  by code_simp

section \<open>Properties of FITS\<close>

subsection \<open>The layout of the buffer\<close>

lemma setUint8_in_range:
  "off < length view \<Longrightarrow> setUint8 view off b = Inr (view[off := b])"
  by (simp add: setUint8_def view_set_def upd_conv_take_nth_drop)

lemma copy_loop_range:
  "base + hi \<le> length view \<Longrightarrow> lo \<le> hi \<Longrightarrow>
   copy_loop view [lo..<hi] (\<lambda>i. base + i) byte =
     Inr (take (base + lo) view @ map byte [lo..<hi] @ drop (base + hi) view)"
proof (induction "hi - lo" arbitrary: lo view)
  case 0
  then show ?case by simp
next
  case (Suc d)
  then have lt: "lo < hi" by simp
  have in_range: "base + lo < length view" using Suc.prems lt by simp
  have len: "base + hi \<le> length (view[base + lo := byte lo])" using Suc.prems by simp
  have d: "d = hi - Suc lo" using Suc.hyps(2) by simp
  have "copy_loop view [lo..<hi] (\<lambda>i. base + i) byte =
      copy_loop (view[base + lo := byte lo]) [Suc lo..<hi] (\<lambda>i. base + i) byte"
    using lt in_range by (simp add: upt_conv_Cons setUint8_in_range)
  also have "\<dots> = Inr (take (base + Suc lo) (view[base + lo := byte lo]) @ map byte [Suc lo..<hi] @
      drop (base + hi) (view[base + lo := byte lo]))"
    using Suc.hyps(1) [OF d len] lt by simp
  also have "take (base + Suc lo) (view[base + lo := byte lo]) = take (base + lo) view @ [byte lo]"
    using in_range by (simp add: take_Suc_conv_app_nth)
  also have "drop (base + hi) (view[base + lo := byte lo]) = drop (base + hi) view"
    using lt by simp
  finally show ?case using lt by (simp add: upt_conv_Cons)
qed

lemma block_ceil_ge: "n \<le> block_ceil n"
  unfolding block_ceil_def BLOCK_SIZE_def by simp

lemma block_ceil_multiple: "block_ceil n mod BLOCK_SIZE = 0"
  by (simp add: block_ceil_def)

text \<open>
  When the header serializes, \<^verbatim>\<open>FITS.toBuffer\<close> returns the header bytes, spaces up to
  the next multiple of 2880, the data bytes and zeros up to the next multiple of 2880.
\<close>

lemma FITS_toBuffer_layout:
  assumes "header_toBuffer (header f) st = (Inr headerBuffer, st')"
  shows "FITS_toBuffer f st =
    (Inr (headerBuffer @ replicate (block_ceil (length headerBuffer) - length headerBuffer) 32 @
          dataBuffer (data f) @
          replicate (block_ceil (length (dataBuffer (data f))) - length (dataBuffer (data f))) 0),
     st')"
proof -
  define db where "db = dataBuffer (data f)"
  define hl where "hl = block_ceil (length headerBuffer)"
  define dl where "dl = block_ceil (length db)"
  have hl: "length headerBuffer \<le> hl" by (simp add: hl_def block_ceil_ge)
  have dl: "length db \<le> dl" by (simp add: dl_def block_ceil_ge)
  define b0 :: "byte list" where "b0 = replicate (hl + dl) 0"
  define b1 where "b1 = headerBuffer @ drop (length headerBuffer) b0"
  define b2 where "b2 = headerBuffer @ replicate (hl - length headerBuffer) 32 @ drop hl b0"
  define b3 where
    "b3 = headerBuffer @ replicate (hl - length headerBuffer) 32 @ db @ drop (hl + length db) b0"
  define b4 where
    "b4 = headerBuffer @ replicate (hl - length headerBuffer) 32 @ db @ replicate (dl - length db) 0"
  have s1: "copy_loop b0 [0..<length headerBuffer] (\<lambda>i. i) (\<lambda>i. headerBuffer ! i) = Inr b1"
    using copy_loop_range [of 0 "length headerBuffer" b0 0 "\<lambda>i. headerBuffer ! i"] hl
    by (simp add: b0_def b1_def map_nth)
  have s2: "copy_loop b1 [length headerBuffer..<hl] (\<lambda>i. i) (\<lambda>i. 32) = Inr b2"
    using copy_loop_range [of 0 hl b1 "length headerBuffer" "\<lambda>i. 32"] hl
    by (simp add: b0_def b1_def b2_def map_replicate_const)
  have s3: "copy_loop b2 [0..<length db] (\<lambda>i. hl + i) (\<lambda>i. db ! i) = Inr b3"
    using copy_loop_range [of hl "length db" b2 0 "\<lambda>i. db ! i"] hl dl
    by (simp add: b0_def b2_def b3_def map_nth)
  have s4: "copy_loop b3 [length db..<dl] (\<lambda>i. hl + i) (\<lambda>i. 0) = Inr b4"
    using copy_loop_range [of hl dl b3 "length db" "\<lambda>i. 0"] hl dl
    by (simp add: b0_def b3_def b4_def map_replicate_const)
  show ?thesis
    unfolding FITS_toBuffer_def Let_def
    using assms s1 s2 s3 s4
    by (simp add: db_def [symmetric] hl_def [symmetric] dl_def [symmetric] b0_def [symmetric] b4_def)
qed

lemma FITS_toBuffer_blocks:
  assumes "header_toBuffer (header f) st = (Inr headerBuffer, st')"
  shows "\<exists>buffer. fst (FITS_toBuffer f st) = Inr buffer \<and>
     length buffer = block_ceil (length headerBuffer) + block_ceil (length (dataBuffer (data f)))"
  using FITS_toBuffer_layout [OF assms] block_ceil_ge [of "length headerBuffer"]
    block_ceil_ge [of "length (dataBuffer (data f))"]
  by simp

subsection \<open>The serialized header\<close>

lemma write_record_in_range:
  "base + j + length bs \<le> length view \<Longrightarrow>
   write_record view base j bs =
     Inr (take (base + j) view @ bs @ drop (base + j + length bs) view)"
proof (induction bs arbitrary: view j)
  case Nil
  then show ?case by simp
next
  case (Cons b bs)
  have in_range: "base + j < length view" using Cons.prems by simp
  have len: "base + Suc j + length bs \<le> length (view[base + j := b])" using Cons.prems by simp
  have "write_record view base j (b # bs) = write_record (view[base + j := b]) base (Suc j) bs"
    using in_range by (simp add: setUint8_in_range)
  also have "\<dots> = Inr (take (base + Suc j) (view[base + j := b]) @ bs @
      drop (base + Suc j + length bs) (view[base + j := b]))"
    using Cons.IH [OF len] .
  also have "take (base + Suc j) (view[base + j := b]) = take (base + j) view @ [b]"
    using in_range by (simp add: take_Suc_conv_app_nth)
  also have "drop (base + Suc j + length bs) (view[base + j := b]) =
      drop (base + j + length (b # bs)) view"
    by simp
  finally show ?case by simp
qed

lemma write_records_in_range:
  "\<forall>c\<in>set cs. length (record_bytes c) = CARD_LENGTH \<Longrightarrow>
   length view = (i + length cs) * CARD_LENGTH \<Longrightarrow>
   write_records view i cs = Inr (take (i * CARD_LENGTH) view @ concat (map record_bytes cs))"
proof (induction cs arbitrary: view i)
  case Nil
  then show ?case by simp
next
  case (Cons c cs)
  have lc: "length (record_bytes c) = CARD_LENGTH" using Cons.prems(1) by simp
  define view' where
    "view' = take (i * CARD_LENGTH) view @ record_bytes c @ drop (i * CARD_LENGTH + CARD_LENGTH) view"
  have total: "length view = i * CARD_LENGTH + CARD_LENGTH + length cs * CARD_LENGTH"
    using Cons.prems(2) by (simp add: algebra_simps)
  have fits: "i * CARD_LENGTH + 0 + length (record_bytes c) \<le> length view"
    using total lc by simp
  have w: "write_record view (i * CARD_LENGTH) 0 (TextEncoder_encode (image' c)) = Inr view'"
    using write_record_in_range [OF fits] lc by (simp add: view'_def record_bytes_def)
  have len': "length view' = (Suc i + length cs) * CARD_LENGTH"
    using total lc by (simp add: view'_def algebra_simps)
  have tk: "take (Suc i * CARD_LENGTH) view' = take (i * CARD_LENGTH) view @ record_bytes c"
    using total lc by (simp add: view'_def)
  have rest: "\<forall>c\<in>set cs. length (record_bytes c) = CARD_LENGTH" using Cons.prems(1) by simp
  show ?case
    using w Cons.IH [OF rest len'] tk by simp
qed

text \<open>
  When \<^verbatim>\<open>Card.fromValue("END", null)\<close> returns a card and every image encodes to 80
  bytes, \<^verbatim>\<open>FITSHeader.toBuffer\<close> returns the images one after the other.
\<close>

lemma header_toBuffer_returns:
  assumes "fromValue ''END'' NullValue None st = (Inr last_card, st')"
    and "\<forall>c\<in>set (cards h @ [last_card]). length (record_bytes c) = CARD_LENGTH"
  shows "header_toBuffer h st = (Inr (concat (map record_bytes (cards h @ [last_card]))), st')"
  using assms(1) write_records_in_range [OF assms(2), of _ 0]
  by (simp add: header_toBuffer_def)

lemma header_toBuffer_throws:
  "fromValue ''END'' NullValue None st = (Inl e, st') \<Longrightarrow> header_toBuffer h st = (Inl e, st')"
  by (simp add: header_toBuffer_def)

lemma FITS_toBuffer_throws:
  "header_toBuffer (header f) st = (Inl e, st') \<Longrightarrow> FITS_toBuffer f st = (Inl e, st')"
  by (simp add: FITS_toBuffer_def)

text \<open>
  C9. The claim: for every FITS file object \<^verbatim>\<open>toBuffer()\<close> returns a buffer of whole
  blocks. The code on the file of the three mandatory cards and no data: on a freshly
  loaded module \<^verbatim>\<open>toBuffer()\<close> returns a buffer of 2880 bytes and leaves
  \<^verbatim>\<open>keywordRegex.lastIndex\<close> at 3; the next \<^verbatim>\<open>toBuffer()\<close> on the same file throws
  "Invalid keyword", since \<^verbatim>\<open>Card.fromValue("END", null)\<close> now fails.
\<close>

theorem FITS_toBuffer_twice_throws:
  "(\<exists>buffer. fst (FITS_toBuffer empty_file fresh) = Inr buffer \<and> length buffer = 2880) \<and>
   snd (FITS_toBuffer empty_file fresh) = after_END \<and>
   FITS_toBuffer empty_file after_END = (Inl InvalidKeyword, fresh)"
proof -
  have first: "fromValue ''END'' NullValue None fresh = (Inr end_card, after_END)"
    by code_simp
  have sizes: "\<forall>c\<in>set (cards (header empty_file) @ [end_card]). length (record_bytes c) = CARD_LENGTH"
    by code_simp
  have hb: "header_toBuffer (header empty_file) fresh =
      (Inr (concat (map record_bytes (cards (header empty_file) @ [end_card]))), after_END)"
    using header_toBuffer_returns [OF first sizes] .
  have len: "length (concat (map record_bytes (cards (header empty_file) @ [end_card]))) = 320"
    by code_simp
  have nodata: "length (dataBuffer (data empty_file)) = 0"
    by code_simp
  have blocks: "block_ceil 320 + block_ceil 0 = 2880"
    by code_simp
  have second: "fromValue ''END'' NullValue None after_END = (Inl InvalidKeyword, fresh)"
    by code_simp
  show ?thesis
    using FITS_toBuffer_blocks [OF hb] FITS_toBuffer_layout [OF hb] len nodata blocks
      FITS_toBuffer_throws [OF header_toBuffer_throws [OF second], of empty_file]
    by auto
qed

end
